theory Spec2Isabelle
  imports Main "HOL-Library.Sublist"
begin

section \<open>JavaScript values and strings\<close>

text \<open>
  The arguments of a tool call and the fields of the configuration file are JSON values
  parsed by JavaScript.  Only their truthiness and \<^verbatim>\<open>typeof x === 'string'\<close> are
  observed by the program, so a number is kept as an integer (zero is falsy, every other
  number is truthy).  An object is the list of its own properties.  Strings are lists of
  code units below 256.
\<close>

datatype jsval =
    JUndefined
  | JNull
  | JBool bool
  | JNum int
  | JStr string
  | JArr "jsval list"
  | JObj "(string \<times> jsval) list"

text \<open>The result of a synchronous call: a returned value, or an exception with its
  message.\<close>

datatype 'a result = Returned 'a | Thrown string

text \<open>The promise of an \<^verbatim>\<open>async\<close> function, as the caller that awaits it sees it:
  resolved with a value, rejected with an error, or never settled because an answer the
  function awaits never arrives.\<close>

datatype 'a promise = Resolved 'a | Rejected string | Pending

fun truthy :: "jsval \<Rightarrow> bool" where
  "truthy JUndefined = False"
| "truthy JNull = False"
| "truthy (JBool b) = b"
| "truthy (JNum n) = (n \<noteq> 0)"
| "truthy (JStr s) = (s \<noteq> [])"
| "truthy (JArr xs) = True"
| "truthy (JObj kvs) = True"

fun is_string :: "jsval \<Rightarrow> bool" where
  "is_string (JStr s) = True"
| "is_string v = False"

text \<open>The characters of a string value; it is applied only to values that passed a
  \<^verbatim>\<open>typeof\<close> test or the string validation of \<^verbatim>\<open>path.resolve\<close>.\<close>

fun str_of :: "jsval \<Rightarrow> string" where
  "str_of (JStr s) = s"
| "str_of v = []"

text \<open>\<^verbatim>\<open>a || b\<close> on values.\<close>

definition js_or :: "jsval \<Rightarrow> jsval \<Rightarrow> jsval" where
  "js_or a b = (if truthy a then a else b)"

text \<open>Property access \<^verbatim>\<open>o.k\<close> for a key that no prototype defines: \<^verbatim>\<open>undefined\<close>
  when the object has no such property, also on a number, a boolean, a string or an array;
  on \<^verbatim>\<open>null\<close> and \<^verbatim>\<open>undefined\<close> the access throws a TypeError.\<close>

fun get_prop :: "jsval \<Rightarrow> string \<Rightarrow> jsval result" where
  "get_prop JNull k = Thrown ''TypeError: Cannot read properties of null''"
| "get_prop JUndefined k = Thrown ''TypeError: Cannot read properties of undefined''"
| "get_prop (JObj kvs) k = (case map_of kvs k of None \<Rightarrow> Returned JUndefined | Some v \<Rightarrow> Returned v)"
| "get_prop v k = Returned JUndefined"

abbreviation dq :: string where "dq \<equiv> [CHR 0x22]"
abbreviation sq :: string where "sq \<equiv> [CHR 0x27]"
abbreviation nl :: string where "nl \<equiv> [CHR 0x0A]"

text \<open>\<^verbatim>\<open>s.includes(t)\<close> and \<^verbatim>\<open>s.startsWith(t)\<close>.\<close>

definition str_includes :: "string \<Rightarrow> string \<Rightarrow> bool" where
  "str_includes s t = sublist t s"

definition startsWith :: "string \<Rightarrow> string \<Rightarrow> bool" where
  "startsWith s t = prefix t s"

text \<open>\<^verbatim>\<open>s.trim()\<close>: white space and line terminators are removed at both ends
  (tab, line feed, vertical tab, form feed, carriage return, space, no-break space).\<close>

definition is_space :: "char \<Rightarrow> bool" where
  "is_space c = (c \<in> set [CHR 0x09, CHR 0x0A, CHR 0x0B, CHR 0x0C, CHR 0x0D, CHR 0x20, CHR 0xA0])"

definition trim_end :: "string \<Rightarrow> string" where
  "trim_end s = rev (dropWhile is_space (rev s))"

definition trim :: "string \<Rightarrow> string" where
  "trim s = trim_end (dropWhile is_space s)"

text \<open>\<^verbatim>\<open>s.toLowerCase()\<close> on the letters A to Z; the results are only compared with
  literals made of ASCII characters.\<close>

definition lower_char :: "char \<Rightarrow> char" where
  "lower_char c =
     (if (65::nat) \<le> of_char c \<and> of_char c \<le> (90::nat) then char_of (of_char c + (32::nat)) else c)"

definition toLowerCase :: "string \<Rightarrow> string" where
  "toLowerCase s = map lower_char s"

section \<open>Paths\<close>

text \<open>The segments of a path: the pieces between separators (\<^verbatim>\<open>/\<close>, and \<^verbatim>\<open>\\<close>
  on Windows).\<close>

definition is_sep :: "char \<Rightarrow> bool" where
  "is_sep c = (c = CHR ''/'' \<or> c = CHR 0x5C)"

fun segments :: "(char \<Rightarrow> bool) \<Rightarrow> string \<Rightarrow> string list" where
  "segments sep [] = [[]]"
| "segments sep (c # cs) =
     (if sep c then [] # segments sep cs
      else (case segments sep cs of [] \<Rightarrow> [[c]] | seg # segs \<Rightarrow> (c # seg) # segs))"

text \<open>A parent-directory traversal segment: a segment that is exactly \<^verbatim>\<open>..\<close>.\<close>

definition has_parent_segment :: "string \<Rightarrow> bool" where
  "has_parent_segment p = (''..'' \<in> set (segments is_sep p))"

text \<open>
  \<^verbatim>\<open>path.resolve\<close> of Node.js on POSIX.  The arguments are visited from the last to
  the first until the path built so far is absolute; an argument that is visited and is not a
  string raises a TypeError, an empty one is skipped, and the process's current directory is
  used when no argument made the path absolute.  The joined path is then normalised segment
  by segment: empty segments and \<^verbatim>\<open>.\<close> are dropped, \<^verbatim>\<open>..\<close> removes the segment
  before it (and is dropped at the root of an absolute path).
\<close>

fun resolve_join :: "string \<Rightarrow> jsval list \<Rightarrow> string \<Rightarrow> string result" where
  "resolve_join cwd [] acc = Returned (if cwd = [] then acc else cwd @ ''/'' @ acc)"
| "resolve_join cwd (JStr p # rest) acc =
     (if p = [] then resolve_join cwd rest acc
      else if hd p = CHR ''/'' then Returned (p @ ''/'' @ acc)
      else resolve_join cwd rest (p @ ''/'' @ acc))"
| "resolve_join cwd (v # rest) acc =
     Thrown ''TypeError: The paths argument must be of type string''"

fun normalize_segments :: "bool \<Rightarrow> string list \<Rightarrow> string list \<Rightarrow> string list" where
  "normalize_segments up [] st = rev st"
| "normalize_segments up (s # ss) st =
     (if s = [] then normalize_segments up ss st
      else if s = ''.'' then normalize_segments up ss st
      else if s = ''..'' then
        (case st of
           [] \<Rightarrow> normalize_segments up ss (if up then [''..''] else [])
         | t # st' \<Rightarrow>
             if t = ''..'' then normalize_segments up ss (if up then s # st else st)
             else normalize_segments up ss st')
      else normalize_segments up ss (s # st))"

fun join_segments :: "string list \<Rightarrow> string" where
  "join_segments [] = []"
| "join_segments [s] = s"
| "join_segments (s # t # ss) = s @ ''/'' @ join_segments (t # ss)"

definition path_resolve :: "string \<Rightarrow> jsval list \<Rightarrow> string result" where
  "path_resolve cwd paths =
     (case resolve_join cwd (rev paths) [] of
        Thrown e \<Rightarrow> Thrown e
      | Returned joined \<Rightarrow>
          if joined \<noteq> [] \<and> hd joined = CHR ''/''
          then Returned (''/'' @ join_segments (normalize_segments False (segments (\<lambda>c. c = CHR ''/'') joined) []))
          else (case join_segments (normalize_segments True (segments (\<lambda>c. c = CHR ''/'') joined) []) of
                  [] \<Rightarrow> Returned ''.''
                | r \<Rightarrow> Returned r))"

text \<open>A resolved path lies inside a resolved directory when it is the directory itself or
  continues it after a separator.\<close>

definition inside_directory :: "string \<Rightarrow> string \<Rightarrow> bool" where
  "inside_directory dir p =
     (if p = dir then True
      else if dir = ''/'' then startsWith p ''/''
      else startsWith p (dir @ ''/''))"

section \<open>The transcript\<close>

text \<open>A tool call as the model requests it, and the turns of \<^verbatim>\<open>chatHistory\<close>:
  a role and parts, each part a text, a function call or a function response (the tool's name
  and the text of its outcome).\<close>

record toolCall =
  name :: string
  args :: jsval

datatype role = RoleUser | RoleModel | RoleFunction

datatype part =
    TextPart string
  | FunctionCallPart toolCall
  | FunctionResponsePart string string

datatype turn = Turn role "part list"

section \<open>The outside world\<close>

text \<open>
  Every effect on the outside world is recorded as an event, in the order in which the
  program performs it; what the world answers is read from an environment.  Console output is
  recorded where the program states or asks something; colours, cursor control, the typing
  indicator and the echo of the streamed text are left out.  A line that prints a value which
  need not be a string has an event of its own: \<open>ShowTool\<close>, \<open>ShowArguments\<close> and
  \<open>ShowDirectory\<close> are the lines \<^verbatim>\<open>Tool:\<close>, \<^verbatim>\<open>Arguments:\<close> and
  \<^verbatim>\<open>In directory:\<close> of the confirmation, \<open>ShowEnabledDirectory\<close> is the line that
  names the directory for which the file tools are enabled, and \<open>ShowExecuting\<close> the line
  that announces a command.
\<close>

datatype exec_outcome =
    ExecThrows string
  | ExecSuccess string string
  | ExecError string string string
  | ExecRunning

datatype stat_outcome = StatError string | StatOk bool

datatype event =
    ConsoleLog string
  | ConsoleError string
  | ShowTool string
  | ShowArguments jsval
  | ShowDirectory jsval
  | ShowEnabledDirectory jsval
  | ShowExecuting jsval string
  | Question string
  | FsWriteFile string jsval
  | FsRename string string
  | FsStat string
  | Exec string jsval
  | MkdirConfigDir
  | WriteConfig "(string \<times> jsval) list"
  | HttpGetSearch jsval
  | ReadConfig
  | StartChat "string list"
  | SendExplanationRequest string jsval
  | SendMessage "part list"

text \<open>
  \<^verbatim>\<open>exec_outcome\<close>: \<^verbatim>\<open>exec\<close> throws at once (\<open>ExecThrows message\<close>), calls back
  without an error (\<open>ExecSuccess stdout stderr\<close>), or calls back with an error
  (\<open>ExecError message stdout stderr\<close>: a non-zero exit status, a signal, a spawn failure),
  or never calls back because the command does not end (\<open>ExecRunning\<close>; no timeout is set).
\<close>

record env =
  cwd :: string
  writeFile_error :: "string \<Rightarrow> jsval \<Rightarrow> string option"
  rename_error :: "string \<Rightarrow> string \<Rightarrow> string option"
  exec_command :: "string \<Rightarrow> jsval \<Rightarrow> exec_outcome"
  stat_path :: "string \<Rightarrow> stat_outcome"
  mkdir_error :: "string option"
  writeConfig_error :: "string option"
  web_search :: "jsval \<Rightarrow> string promise"
  explanation :: "string \<Rightarrow> jsval \<Rightarrow> string promise"

text \<open>The events of a call that come after events already performed.\<close>

definition emit :: "event list \<Rightarrow> event list \<times> 'a \<Rightarrow> event list \<times> 'a" where
  "emit evs r = (evs @ fst r, snd r)"

section \<open>file.js\<close>

text \<open>The validation \<^verbatim>\<open>!p || typeof p !== 'string' || p.includes('..')\<close>, evaluated
  from left to right.\<close>

definition unsafe_path :: "jsval \<Rightarrow> bool" where
  "unsafe_path p =
     (if truthy p then (if is_string p then str_includes (str_of p) ''..'' else True) else True)"

definition createNewFile :: "env \<Rightarrow> jsval \<Rightarrow> jsval \<Rightarrow> jsval \<Rightarrow> event list \<times> string promise" where
  "createNewFile e basePath relativeFilePath fileContent =
     (if unsafe_path relativeFilePath
      then ([], Resolved ''Error: Invalid or potentially unsafe file path for new_file.'')
      else
        (case path_resolve (cwd e) [basePath, relativeFilePath] of
           Thrown m \<Rightarrow> ([], Rejected m)
         | Returned absoluteFilePath \<Rightarrow>
             (case path_resolve (cwd e) [basePath] of
                Thrown m \<Rightarrow> ([], Rejected m)
              | Returned base \<Rightarrow>
                  if startsWith absoluteFilePath base then
                    (case writeFile_error e absoluteFilePath (js_or fileContent (JStr [])) of
                       None \<Rightarrow>
                         ([FsWriteFile absoluteFilePath (js_or fileContent (JStr []))],
                          Resolved (''File '' @ dq @ str_of relativeFilePath @ dq
                            @ '' created successfully in '' @ str_of basePath @ ''.''))
                     | Some m \<Rightarrow>
                         ([FsWriteFile absoluteFilePath (js_or fileContent (JStr []))],
                          Resolved (''Error creating file '' @ dq @ str_of relativeFilePath @ dq
                            @ '': '' @ m)))
                  else
                    ([], Resolved ''Error: File path is outside the allowed working directory for new_file.''))))"

definition renameFile :: "env \<Rightarrow> jsval \<Rightarrow> jsval \<Rightarrow> jsval \<Rightarrow> event list \<times> string promise" where
  "renameFile e basePath relativeOldPath relativeNewPath =
     (if unsafe_path relativeOldPath
      then ([], Resolved ''Error: Invalid or potentially unsafe file paths for modify_file (rename).'')
      else if unsafe_path relativeNewPath
      then ([], Resolved ''Error: Invalid or potentially unsafe file paths for modify_file (rename).'')
      else
        (case path_resolve (cwd e) [basePath, relativeOldPath] of
           Thrown m \<Rightarrow> ([], Rejected m)
         | Returned absoluteOldPath \<Rightarrow>
             (case path_resolve (cwd e) [basePath, relativeNewPath] of
                Thrown m \<Rightarrow> ([], Rejected m)
              | Returned absoluteNewPath \<Rightarrow>
                  (case path_resolve (cwd e) [basePath] of
                     Thrown m \<Rightarrow> ([], Rejected m)
                   | Returned base \<Rightarrow>
                       if startsWith absoluteOldPath base then
                         (if startsWith absoluteNewPath base then
                            (case rename_error e absoluteOldPath absoluteNewPath of
                               None \<Rightarrow>
                                 ([FsRename absoluteOldPath absoluteNewPath],
                                  Resolved (''File '' @ dq @ str_of relativeOldPath @ dq
                                    @ '' renamed/moved to '' @ dq @ str_of relativeNewPath @ dq
                                    @ '' successfully in '' @ str_of basePath @ ''.''))
                             | Some m \<Rightarrow>
                                 ([FsRename absoluteOldPath absoluteNewPath],
                                  Resolved (''Error renaming file '' @ dq @ str_of relativeOldPath @ dq
                                    @ '' to '' @ dq @ str_of relativeNewPath @ dq @ '': '' @ m)))
                          else
                            ([], Resolved ''Error: File paths are outside the allowed working directory for modify_file (rename).''))
                       else
                         ([], Resolved ''Error: File paths are outside the allowed working directory for modify_file (rename).'')))))"

text \<open>\<^verbatim>\<open>execPromise\<close> never rejects on a callback: an error is resolved as
  \<^verbatim>\<open>{success: false, stdout, stderr: stderr || error.message, error}\<close>.  The composed text of
  \<^verbatim>\<open>runShellCommand\<close> is built from the three fields.\<close>

definition compose_output :: "string \<Rightarrow> string \<Rightarrow> string option \<Rightarrow> string" where
  "compose_output out err failure =
     (let r1 = (if out \<noteq> [] then ''Stdout:'' @ nl @ out @ nl else []);
          r2 = r1 @ (if err \<noteq> [] then ''Stderr:'' @ nl @ err @ nl else []);
          r3 = r2 @ (case failure of None \<Rightarrow> [] | Some m \<Rightarrow> ''Execution Error: '' @ m @ nl);
          r4 = (if r3 = [] then ''Command executed, no output produced.'' else r3)
      in trim r4)"

definition runShellCommand :: "env \<Rightarrow> jsval \<Rightarrow> jsval \<Rightarrow> event list \<times> string promise" where
  "runShellCommand e basePath commandToRun =
     (if truthy commandToRun then
        (if is_string commandToRun then
           ([ShowExecuting basePath (str_of commandToRun), Exec (str_of commandToRun) basePath],
            (case exec_command e (str_of commandToRun) basePath of
               ExecThrows m \<Rightarrow>
                 Resolved (''Error executing command '' @ dq @ str_of commandToRun @ dq @ '': '' @ m)
             | ExecSuccess out err \<Rightarrow> Resolved (compose_output out err None)
             | ExecError m out err \<Rightarrow>
                 Resolved (compose_output out (if err \<noteq> [] then err else m) (Some m))
             | ExecRunning \<Rightarrow> Pending))
         else ([], Resolved ''Error: Invalid command for run_command.''))
      else ([], Resolved ''Error: Invalid command for run_command.''))"

section \<open>zeno.js: session state, configuration and file mode\<close>

text \<open>The module's variables.\<close>

record state =
  apiKey :: jsval
  chatHistory :: "turn list"
  isFilesModeEnabled :: bool
  filesWorkingDirectory :: jsval
  tempFilesWorkingDirectory :: jsval

definition push :: "turn \<Rightarrow> state \<Rightarrow> state" where
  "push t s = s\<lparr>chatHistory := chatHistory s @ [t]\<rparr>"

definition fileSystemToolDeclarations :: "string list" where
  "fileSystemToolDeclarations = [''new_file'', ''run_command'', ''modify_file'']"

definition files_active :: "state \<Rightarrow> bool" where
  "files_active s =
     (isFilesModeEnabled s \<and> (truthy (filesWorkingDirectory s) \<or> truthy (tempFilesWorkingDirectory s)))"

definition getActiveTools :: "state \<Rightarrow> string list" where
  "getActiveTools s =
     ''web_search'' # (if files_active s then fileSystemToolDeclarations else [])"

text \<open>\<^verbatim>\<open>ensureConfigDir\<close> rethrows every error of \<^verbatim>\<open>mkdir\<close> but \<^verbatim>\<open>EEXIST\<close>;
  \<open>mkdir_error\<close> is such an error.  The configuration file is either unreadable (it does not
  exist, or is not JSON) or parsed to a value.\<close>

datatype config_file = Unreadable | Parsed jsval

definition loadConfig :: "env \<Rightarrow> config_file \<Rightarrow> state \<Rightarrow> event list \<times> state promise" where
  "loadConfig e file s =
     (case mkdir_error e of
        Some m \<Rightarrow> ([MkdirConfigDir], Rejected m)
      | None \<Rightarrow>
          ([MkdirConfigDir, ReadConfig],
           (case file of
              Unreadable \<Rightarrow> Resolved s
            | Parsed config \<Rightarrow>
                (case get_prop config ''apiKey'' of
                   Thrown m \<Rightarrow> Resolved s
                 | Returned k \<Rightarrow>
                     (case get_prop config ''filesWorkingDirectory'' of
                        Thrown m \<Rightarrow> Resolved (s\<lparr>apiKey := k\<rparr>)
                      | Returned d \<Rightarrow>
                          (let s1 = s\<lparr>apiKey := k, filesWorkingDirectory := js_or d JNull\<rparr>
                           in Resolved (if truthy (filesWorkingDirectory s1)
                                        then s1\<lparr>isFilesModeEnabled := True\<rparr> else s1)))))))"

text \<open>The object that \<^verbatim>\<open>saveConfig\<close> builds and writes.\<close>

definition configToSave :: "state \<Rightarrow> (string \<times> jsval) list" where
  "configToSave s =
     (''apiKey'', apiKey s) #
     (if truthy (filesWorkingDirectory s) \<and> \<not> truthy (tempFilesWorkingDirectory s)
      then [(''filesWorkingDirectory'', filesWorkingDirectory s)] else [])"

definition saveConfig :: "env \<Rightarrow> state \<Rightarrow> event list \<times> unit promise" where
  "saveConfig e s =
     (case mkdir_error e of
        Some m \<Rightarrow> ([MkdirConfigDir], Rejected m)
      | None \<Rightarrow>
          (case writeConfig_error e of
             None \<Rightarrow> ([MkdirConfigDir, WriteConfig (configToSave s)], Resolved ())
           | Some m \<Rightarrow>
               ([MkdirConfigDir, WriteConfig (configToSave s),
                 ConsoleError ''Error saving Zeno configuration:''], Resolved ())))"

definition ACTIVE_MODEL :: string where
  "ACTIVE_MODEL = ''gemini-2.5-flash-preview-05-20''"

definition startNewChatSession :: "state \<Rightarrow> event list" where
  "startNewChatSession s =
     [StartChat (getActiveTools s),
      ConsoleLog (''Chat session (re)started with '' @ ACTIVE_MODEL @ ''.''),
      ConsoleLog ''Web search tool is available.'',
      (if files_active s
       then ShowEnabledDirectory (js_or (filesWorkingDirectory s) (tempFilesWorkingDirectory s))
       else ConsoleLog ''File manipulation tools are DISABLED.'')]"

text \<open>The answers that the user types are a list; a question that finds the list empty
  is never answered.\<close>

definition directory_question :: string where
  "directory_question =
     ''Enter full path to the folder Zeno can manage, or type '' @ sq @ ''this_folder'' @ sq @ '': ''"

definition enable_with_directory :: "env \<Rightarrow> state \<Rightarrow> string \<Rightarrow> event list \<times> state promise" where
  "enable_with_directory e s chosenDir =
     (case stat_path e chosenDir of
        StatError m \<Rightarrow>
          ([FsStat chosenDir,
            ConsoleError (''Error accessing path '' @ dq @ chosenDir @ dq @ '': '' @ m
              @ ''. File mode NOT enabled.'')], Resolved s)
      | StatOk isDirectory \<Rightarrow>
          if isDirectory then
            (case path_resolve (cwd e) [JStr chosenDir] of
               Thrown m \<Rightarrow>
                 ([FsStat chosenDir,
                   ConsoleError (''Error accessing path '' @ dq @ chosenDir @ dq @ '': '' @ m
                     @ ''. File mode NOT enabled.'')], Resolved s)
             | Returned d \<Rightarrow>
                 (let s1 = s\<lparr>filesWorkingDirectory := JStr d, tempFilesWorkingDirectory := JNull,
                              isFilesModeEnabled := True\<rparr>
                  in (case saveConfig e s1 of
                        (ev, Rejected m) \<Rightarrow>
                          (FsStat chosenDir
                             # ConsoleLog (''File manipulation enabled for directory (SAVED): '' @ d) # ev @
                           [ConsoleError (''Error accessing path '' @ dq @ chosenDir @ dq @ '': '' @ m
                              @ ''. File mode NOT enabled.'')], Resolved s1)
                      | (ev, Pending) \<Rightarrow>
                          (FsStat chosenDir
                             # ConsoleLog (''File manipulation enabled for directory (SAVED): '' @ d) # ev,
                           Pending)
                      | (ev, Resolved u) \<Rightarrow>
                          (FsStat chosenDir
                             # ConsoleLog (''File manipulation enabled for directory (SAVED): '' @ d) # ev
                             @ startNewChatSession s1,
                           Resolved s1))))
          else
            ([FsStat chosenDir,
              ConsoleError ''Error: Path provided is not a directory. File mode NOT enabled.''],
             Resolved s))"

definition toggleFilesMode :: "env \<Rightarrow> state \<Rightarrow> string list \<Rightarrow> event list \<times> (state \<times> string list) promise" where
  "toggleFilesMode e s answers =
     (if isFilesModeEnabled s then
        (let s1 = s\<lparr>isFilesModeEnabled := False\<rparr>
         in (case saveConfig e s1 of
               (ev, Rejected m) \<Rightarrow> (ConsoleLog ''File manipulation mode DISABLED.'' # ev, Rejected m)
             | (ev, Pending) \<Rightarrow> (ConsoleLog ''File manipulation mode DISABLED.'' # ev, Pending)
             | (ev, Resolved u) \<Rightarrow>
                 (ConsoleLog ''File manipulation mode DISABLED.'' # ev @ startNewChatSession s1,
                  Resolved (s1, answers))))
      else
        (case answers of
           [] \<Rightarrow> ([ConsoleLog ''Enable file manipulation mode:'', Question directory_question], Pending)
         | answer # rest \<Rightarrow>
             (let chosenDir = trim answer
              in if toLowerCase chosenDir = ''this_folder'' then
                   (let s1 = s\<lparr>tempFilesWorkingDirectory := JStr (cwd e),
                                filesWorkingDirectory := JNull, isFilesModeEnabled := True\<rparr>
                    in ([ConsoleLog ''Enable file manipulation mode:'', Question directory_question,
                         ConsoleLog (''File manipulation enabled for current directory (TEMPORARY): '' @ cwd e)]
                        @ startNewChatSession s1,
                        Resolved (s1, rest)))
                 else if chosenDir \<noteq> [] then
                   (case enable_with_directory e s chosenDir of
                      (ev, Resolved s1) \<Rightarrow>
                        ([ConsoleLog ''Enable file manipulation mode:'', Question directory_question] @ ev,
                         Resolved (s1, rest))
                    | (ev, Rejected m) \<Rightarrow>
                        ([ConsoleLog ''Enable file manipulation mode:'', Question directory_question] @ ev,
                         Rejected m)
                    | (ev, Pending) \<Rightarrow>
                        ([ConsoleLog ''Enable file manipulation mode:'', Question directory_question] @ ev,
                         Pending))
                 else
                   ([ConsoleLog ''Enable file manipulation mode:'', Question directory_question,
                     ConsoleLog ''No directory provided. File manipulation mode remains disabled.''],
                    Resolved (s, rest)))))"

section \<open>zeno.js: confirmation of a tool call\<close>

record confirmation =
  confirmed :: bool
  explain :: bool

definition confirm_question :: string where
  "confirm_question = ''Confirm? (1: Yes, 2: No, 3: Explain action): ''"

text \<open>The loop of \<^verbatim>\<open>handleToolConfirmation\<close>: one question per round, compared with
  \<^verbatim>\<open>===\<close> to the three choices.\<close>

fun confirm_loop :: "string list \<Rightarrow> event list \<times> (confirmation \<times> string list) promise" where
  "confirm_loop [] = ([Question confirm_question], Pending)"
| "confirm_loop (choice # rest) =
     (if choice = ''1'' then
        ([Question confirm_question], Resolved (\<lparr>confirmed = True, explain = False\<rparr>, rest))
      else if choice = ''2'' then
        ([Question confirm_question], Resolved (\<lparr>confirmed = False, explain = False\<rparr>, rest))
      else if choice = ''3'' then
        ([Question confirm_question], Resolved (\<lparr>confirmed = False, explain = True\<rparr>, rest))
      else
        emit [Question confirm_question, ConsoleLog ''Invalid choice. Please enter 1, 2, or 3.'']
          (confirm_loop rest))"

definition currentDir :: "state \<Rightarrow> jsval" where
  "currentDir s = js_or (tempFilesWorkingDirectory s) (filesWorkingDirectory s)"

definition confirmation_display :: "state \<Rightarrow> toolCall \<Rightarrow> event list" where
  "confirmation_display s tc =
     [ConsoleLog (nl @ ''--- ACTION CONFIRMATION ---''),
      ConsoleLog ''Zeno wants to perform the following action:'',
      ShowTool (name tc),
      ShowArguments (args tc)]
     @ (if name tc \<noteq> ''web_search'' then [ShowDirectory (currentDir s)] else [])
     @ (if name tc = ''run_command''
        then [ConsoleLog ''WARNING: Executing shell commands can be dangerous!''] else [])"

definition handleToolConfirmation ::
  "state \<Rightarrow> toolCall \<Rightarrow> string list \<Rightarrow> event list \<times> (confirmation \<times> string list) promise" where
  "handleToolConfirmation s tc answers =
     emit (confirmation_display s tc) (confirm_loop answers)"

text \<open>The second loop, after an explanation: two choices.\<close>

definition reconfirm_question :: string where
  "reconfirm_question = ''Confirm action? (1: Yes, 2: No): ''"

fun reconfirm_loop :: "string list \<Rightarrow> event list \<times> (bool \<times> string list) promise" where
  "reconfirm_loop [] = ([Question reconfirm_question], Pending)"
| "reconfirm_loop (choice # rest) =
     (if choice = ''1'' then ([Question reconfirm_question], Resolved (True, rest))
      else if choice = ''2'' then ([Question reconfirm_question], Resolved (False, rest))
      else
        emit [Question reconfirm_question, ConsoleLog ''Invalid choice.''] (reconfirm_loop rest))"

section \<open>zeno.js: executing a tool call\<close>

text \<open>The \<^verbatim>\<open>switch\<close> on the tool's name.  Reading an argument of a call whose
  \<^verbatim>\<open>args\<close> is \<^verbatim>\<open>null\<close> or \<^verbatim>\<open>undefined\<close> throws.\<close>

definition execute_tool :: "env \<Rightarrow> state \<Rightarrow> toolCall \<Rightarrow> event list \<times> string promise" where
  "execute_tool e s tc =
     (if name tc = ''web_search'' then
        (case get_prop (args tc) ''term_to_search'' of
           Thrown m \<Rightarrow> ([], Rejected m)
         | Returned term_to_search \<Rightarrow> ([HttpGetSearch term_to_search], web_search e term_to_search))
      else if name tc = ''new_file'' then
        (case get_prop (args tc) ''file_path'' of
           Thrown m \<Rightarrow> ([], Rejected m)
         | Returned file_path \<Rightarrow>
             (case get_prop (args tc) ''file_content'' of
                Thrown m \<Rightarrow> ([], Rejected m)
              | Returned file_content \<Rightarrow> createNewFile e (currentDir s) file_path file_content))
      else if name tc = ''run_command'' then
        (case get_prop (args tc) ''command_to_run'' of
           Thrown m \<Rightarrow> ([], Rejected m)
         | Returned command_to_run \<Rightarrow> runShellCommand e (currentDir s) command_to_run)
      else if name tc = ''modify_file'' then
        (case get_prop (args tc) ''file_path'' of
           Thrown m \<Rightarrow> ([], Rejected m)
         | Returned file_path \<Rightarrow>
             (case get_prop (args tc) ''new_file_name'' of
                Thrown m \<Rightarrow> ([], Rejected m)
              | Returned new_file_name \<Rightarrow> renameFile e (currentDir s) file_path new_file_name))
      else
        ([ConsoleError (''Error: Unknown tool '' @ sq @ name tc @ sq @ '' requested.'')],
         Resolved (''Error: Unknown tool '' @ sq @ name tc @ sq @ '' requested.'')))"

text \<open>
  What one pass through the tool branch of the conversation loop leaves behind: the state,
  \<^verbatim>\<open>continueLoop\<close>, and the answers not yet read.  An exception inside the pass is caught
  by the loop's \<^verbatim>\<open>catch\<close>, which reports it; the turns already pushed stay in the
  transcript and \<^verbatim>\<open>continueLoop\<close> stays false.
\<close>

type_synonym pass = "event list \<times> (state \<times> bool \<times> string list) promise"

definition communication_error :: "string \<Rightarrow> event" where
  "communication_error m = ConsoleError (''Error communicating with Gemini: '' @ m)"

definition denial_text :: string where
  "denial_text = ''User denied execution of this action.''"

definition run_confirmed :: "env \<Rightarrow> state \<Rightarrow> toolCall \<Rightarrow> string list \<Rightarrow> pass" where
  "run_confirmed e s tc answers =
     (let s1 = push (Turn RoleModel [FunctionCallPart tc]) s
      in (case execute_tool e s1 tc of
            (ev, Resolved toolExecutionResult) \<Rightarrow>
              (ev, Resolved (push (Turn RoleFunction [FunctionResponsePart (name tc) toolExecutionResult]) s1,
                             True, answers))
          | (ev, Rejected m) \<Rightarrow> (ev @ [communication_error m], Resolved (s1, False, answers))
          | (ev, Pending) \<Rightarrow> (ev, Pending)))"

definition run_denied :: "state \<Rightarrow> toolCall \<Rightarrow> string list \<Rightarrow> pass" where
  "run_denied s tc answers =
     ([ConsoleLog ''Action denied by user.''],
      Resolved (push (Turn RoleFunction [FunctionResponsePart (name tc) denial_text])
                  (push (Turn RoleModel [FunctionCallPart tc]) s),
                True, answers))"

definition run_decided :: "env \<Rightarrow> state \<Rightarrow> toolCall \<Rightarrow> bool \<Rightarrow> string list \<Rightarrow> pass" where
  "run_decided e s tc ok answers =
     (if ok then run_confirmed e s tc answers else run_denied s tc answers)"

definition explanation_note :: "toolCall \<Rightarrow> string" where
  "explanation_note tc =
     ''(System: User requested explanation for your proposed action: '' @ name tc @ '')''"

definition run_explanation :: "env \<Rightarrow> state \<Rightarrow> toolCall \<Rightarrow> string list \<Rightarrow> pass" where
  "run_explanation e s tc answers =
     (let s1 = push (Turn RoleUser [TextPart (explanation_note tc)])
                 (push (Turn RoleModel [FunctionCallPart tc]) s)
      in (case explanation e (name tc) (args tc) of
            Rejected m \<Rightarrow>
              ([SendExplanationRequest (name tc) (args tc), communication_error m],
               Resolved (s1, False, answers))
          | Pending \<Rightarrow> ([SendExplanationRequest (name tc) (args tc)], Pending)
          | Resolved explanationText \<Rightarrow>
              (let s2 = push (Turn RoleModel [TextPart explanationText]) s1;
                   shown = [SendExplanationRequest (name tc) (args tc),
                            ConsoleLog (nl @ ''--- ACTION CONFIRMATION (after explanation) ---'')]
               in (case reconfirm_loop answers of
                     (ev, Resolved (ok, rest)) \<Rightarrow> emit (shown @ ev) (run_decided e s2 tc ok rest)
                   | (ev, Rejected m) \<Rightarrow> (shown @ ev @ [communication_error m], Resolved (s2, False, answers))
                   | (ev, Pending) \<Rightarrow> (shown @ ev, Pending)))))"

text \<open>The branch \<^verbatim>\<open>if (aggregatedFunctionCall)\<close> of \<^verbatim>\<open>main\<close>.\<close>

definition handle_function_call :: "env \<Rightarrow> state \<Rightarrow> toolCall \<Rightarrow> string list \<Rightarrow> pass" where
  "handle_function_call e s toolCall answers =
     (case (if name toolCall \<noteq> ''web_search'' then handleToolConfirmation s toolCall answers
            else ([], Resolved (\<lparr>confirmed = True, explain = False\<rparr>, answers))) of
        (ev, Pending) \<Rightarrow> (ev, Pending)
      | (ev, Rejected m) \<Rightarrow> (ev @ [communication_error m], Resolved (s, False, answers))
      | (ev, Resolved (userConfirmation, rest)) \<Rightarrow>
          if explain userConfirmation
          then emit ev (run_explanation e s toolCall rest)
          else emit ev (run_decided e s toolCall (confirmed userConfirmation) rest))"

section \<open>zeno.js: the conversation loop\<close>

text \<open>
  What the model streams back for one request: the call fails, or a stream of chunks (each
  with its text and its function calls), the function call found in the parts of the final
  response, and the finish reason.
\<close>

datatype model_reply =
    StreamError string
  | Reply "(string \<times> toolCall list) list" "toolCall option" "string option"

fun chunk_call :: "toolCall option \<Rightarrow> (string \<times> toolCall list) list \<Rightarrow> toolCall option" where
  "chunk_call acc [] = acc"
| "chunk_call acc ((chunkText, []) # chunks) = chunk_call acc chunks"
| "chunk_call acc ((chunkText, c # cs) # chunks) = chunk_call (Some c) chunks"

definition aggregatedFunctionCall :: "(string \<times> toolCall list) list \<Rightarrow> toolCall option \<Rightarrow> toolCall option" where
  "aggregatedFunctionCall chunks final =
     (case final of Some c \<Rightarrow> Some c | None \<Rightarrow> chunk_call None chunks)"

definition last_parts :: "turn list \<Rightarrow> part list" where
  "last_parts h = (case last h of Turn r ps \<Rightarrow> ps)"

text \<open>One pass through the body of \<^verbatim>\<open>while (continueLoop)\<close>.\<close>

definition conversation_pass :: "env \<Rightarrow> state \<Rightarrow> model_reply \<Rightarrow> string list \<Rightarrow> pass" where
  "conversation_pass e s reply answers =
     (if chatHistory s = [] then
        ([communication_error ''TypeError: Cannot read properties of undefined''],
         Resolved (s, False, answers))
      else
        (case reply of
           StreamError m \<Rightarrow>
             ([SendMessage (last_parts (chatHistory s)), communication_error m],
              Resolved (s, False, answers))
         | Reply chunks final finishReason \<Rightarrow>
             (case aggregatedFunctionCall chunks final of
                Some toolCall \<Rightarrow>
                  emit [SendMessage (last_parts (chatHistory s))] (handle_function_call e s toolCall answers)
              | None \<Rightarrow>
                  if trim (concat (map fst chunks)) \<noteq> [] then
                    ([SendMessage (last_parts (chatHistory s))],
                     Resolved (push (Turn RoleModel [TextPart (concat (map fst chunks))]) s, False, answers))
                  else
                    (SendMessage (last_parts (chatHistory s)) #
                       (case finishReason of
                          None \<Rightarrow> []
                        | Some r \<Rightarrow>
                            if r \<noteq> [] \<and> r \<noteq> ''STOP''
                            then [ConsoleLog (''Zeno: (Responded without text. Finish Reason: '' @ r @ '')'')]
                            else []),
                     Resolved (s, False, answers)))))"

text \<open>The loop runs while \<^verbatim>\<open>continueLoop\<close> is set; the model's replies are a list,
  and a request that finds the list empty is never answered.\<close>

fun conversation_loop ::
  "env \<Rightarrow> state \<Rightarrow> model_reply list \<Rightarrow> string list \<Rightarrow> event list \<times> (state \<times> string list) promise" where
  "conversation_loop e s [] answers =
     (if chatHistory s = [] then [] else [SendMessage (last_parts (chatHistory s))], Pending)"
| "conversation_loop e s (reply # replies) answers =
     (case conversation_pass e s reply answers of
        (ev, Resolved (s1, continueLoop, rest)) \<Rightarrow>
          if continueLoop then emit ev (conversation_loop e s1 replies rest)
          else (ev, Resolved (s1, rest))
      | (ev, Rejected m) \<Rightarrow> (ev, Rejected m)
      | (ev, Pending) \<Rightarrow> (ev, Pending))"

text \<open>A line of user input that is not a command: the text is pushed and the loop runs.\<close>

definition user_message ::
  "env \<Rightarrow> state \<Rightarrow> string \<Rightarrow> model_reply list \<Rightarrow> string list \<Rightarrow> event list \<times> (state \<times> string list) promise" where
  "user_message e s userInput replies answers =
     (if trim userInput = [] then ([], Resolved (s, answers))
      else conversation_loop e (push (Turn RoleUser [TextPart userInput]) s) replies answers)"

section \<open>zeno.js: the state at startup\<close>

text \<open>The module's variables as they are declared; \<^verbatim>\<open>main\<close> begins by calling
  \<^verbatim>\<open>loadConfig\<close> on them.\<close>

definition initial_state :: state where
  "initial_state =
     \<lparr>apiKey = JUndefined, chatHistory = [], isFilesModeEnabled = False,
      filesWorkingDirectory = JNull, tempFilesWorkingDirectory = JNull\<rparr>"

section \<open>Worlds for concrete runs\<close>

text \<open>A world in which the current directory is \<^verbatim>\<open>/home/u\<close>, every file operation
  succeeds, every path is a directory, commands end at once and print nothing, and the model
  explains itself in one word.\<close>

definition quiet_env :: env where
  "quiet_env =
     \<lparr>cwd = ''/home/u'',
      writeFile_error = (\<lambda>p c. None),
      rename_error = (\<lambda>p q. None),
      exec_command = (\<lambda>c d. ExecSuccess [] []),
      stat_path = (\<lambda>p. StatOk True),
      mkdir_error = None,
      writeConfig_error = None,
      web_search = (\<lambda>t. Resolved ''results''),
      explanation = (\<lambda>n a. Resolved ''because'')\<rparr>"

text \<open>Worlds that differ from it in what a command does: it prints \<^verbatim>\<open>hi\<close> and a line
  feed, it fails with a message on its error stream, or it never ends.\<close>

definition echo_env :: env where
  "echo_env = quiet_env\<lparr>exec_command := (\<lambda>c d. ExecSuccess (''hi'' @ nl) [])\<rparr>"

definition failing_env :: env where
  "failing_env = quiet_env\<lparr>exec_command := (\<lambda>c d. ExecError ''Command failed: ls nowhere'' [] (''ls: nowhere: No such file or directory'' @ nl))\<rparr>"

definition sleeping_env :: env where
  "sleeping_env = quiet_env\<lparr>exec_command := (\<lambda>c d. ExecRunning)\<rparr>"

text \<open>A session with file mode enabled for the saved directory \<^verbatim>\<open>/work\<close>, the same
  session with the current directory chosen temporarily, two tool calls, and a configuration
  file that holds that directory.\<close>

definition work_state :: state where
  "work_state =
     \<lparr>apiKey = JStr ''key'', chatHistory = [Turn RoleUser [TextPart ''make a note'']],
      isFilesModeEnabled = True, filesWorkingDirectory = JStr ''/work'',
      tempFilesWorkingDirectory = JNull\<rparr>"

definition note_call :: toolCall where
  "note_call = \<lparr>name = ''new_file'', args = JObj [(''file_path'', JStr ''note.txt'')]\<rparr>"

definition search_call :: toolCall where
  "search_call = \<lparr>name = ''web_search'', args = JObj [(''term_to_search'', JStr ''weather'')]\<rparr>"

definition temporary_state :: state where
  "temporary_state = work_state\<lparr>filesWorkingDirectory := JNull, tempFilesWorkingDirectory := JStr ''/home/u''\<rparr>"

definition saved_directory_config :: jsval where
  "saved_directory_config = JObj [(''apiKey'', JStr ''key''), (''filesWorkingDirectory'', JStr ''/work'')]"

section \<open>Observations on traces\<close>

text \<open>The events by which the user is shown a proposed action or asked about it.\<close>

fun confirmation_event :: "event \<Rightarrow> bool" where
  "confirmation_event (Question q) = True"
| "confirmation_event (ShowTool n) = True"
| "confirmation_event (ShowArguments a) = True"
| "confirmation_event (ShowDirectory d) = True"
| "confirmation_event ev = False"

text \<open>The requests to the model for an explanation, and their number in a trace.\<close>

fun explanation_request :: "event \<Rightarrow> bool" where
  "explanation_request (SendExplanationRequest n a) = True"
| "explanation_request ev = False"

definition explanation_requests :: "event list \<Rightarrow> nat" where
  "explanation_requests evs = length (filter explanation_request evs)"

section \<open>Sequencing of events\<close>

lemma emit_pair [simp]: "emit evs (a, b) = (evs @ a, b)"
  by (simp add: emit_def)

lemma fst_emit [simp]: "fst (emit evs r) = evs @ fst r"
  by (simp add: emit_def)

lemma snd_emit [simp]: "snd (emit evs r) = snd r"
  by (simp add: emit_def)

lemma fst_confirm_loop: "\<exists>more. fst (confirm_loop answers) = Question confirm_question # more"
  by (cases answers) auto

lemma execute_web_search_events:
  "name tc = ''web_search'' \<Longrightarrow>
     fst (execute_tool e s tc) = [] \<or> (\<exists>t. fst (execute_tool e s tc) = [HttpGetSearch t])"
  by (simp add: execute_tool_def split: result.splits)

lemma run_confirmed_web_search_events:
  assumes "name tc = ''web_search''"
  shows "\<forall>ev\<in>set (fst (run_confirmed e s tc answers)). \<not> confirmation_event ev"
proof -
  obtain evs r where x: "execute_tool e (push (Turn RoleModel [FunctionCallPart tc]) s) tc = (evs, r)"
    by (cases "execute_tool e (push (Turn RoleModel [FunctionCallPart tc]) s) tc")
  with execute_web_search_events [OF assms, of e "push (Turn RoleModel [FunctionCallPart tc]) s"]
  have "evs = [] \<or> (\<exists>t. evs = [HttpGetSearch t])" by simp
  then show ?thesis
    using x by (cases r) (auto simp: run_confirmed_def Let_def communication_error_def)
qed

lemma currentDir_active: "files_active s \<Longrightarrow> truthy (currentDir s)"
  by (auto simp: files_active_def currentDir_def js_or_def)

section \<open>Path validation\<close>

lemma segments_not_Nil: "segments sep s \<noteq> []"
  by (induction s) (auto split: list.splits)

lemma segment_is_sublist: "t \<in> set (segments sep s) \<Longrightarrow> sublist t s \<and> prefix (hd (segments sep s)) s"
proof (induction s arbitrary: t)
  case Nil
  then show ?case by simp
next
  case (Cons c cs)
  obtain seg segs where segs: "segments sep cs = seg # segs"
    using segments_not_Nil [of sep cs] by (cases "segments sep cs") auto
  have pre: "prefix seg cs"
    using Cons.IH [of seg] segs by simp
  show ?case
  proof (cases "sep c")
    case True
    with Cons.prems have "t = [] \<or> t \<in> set (segments sep cs)" by simp
    then show ?thesis
      using Cons.IH True by (auto simp: sublist_Cons_right)
  next
    case False
    with Cons.prems segs have "t = c # seg \<or> t \<in> set segs"
      by simp
    then have "sublist t (c # cs)"
    proof
      assume "t = c # seg"
      then have "prefix t (c # cs)" using pre by simp
      then show ?thesis by (rule prefix_imp_sublist)
    next
      assume "t \<in> set segs"
      then have "t \<in> set (segments sep cs)" using segs by simp
      then show ?thesis using Cons.IH by (simp add: sublist_Cons_right)
    qed
    then show ?thesis using False segs pre by simp
  qed
qed

lemma parent_segment_includes: "has_parent_segment s \<Longrightarrow> str_includes s ''..''"
  unfolding has_parent_segment_def str_includes_def by (simp add: segment_is_sublist)

lemma unsafe_path_cases:
  "\<not> is_string p \<or> p = JStr [] \<or> has_parent_segment (str_of p) \<Longrightarrow> unsafe_path p"
  by (cases p) (auto simp: unsafe_path_def dest: parent_segment_includes)

text \<open>
  Claim C2.  A path argument that is not a string, is empty, or has a segment \<^verbatim>\<open>..\<close> is
  rejected by \<^verbatim>\<open>createNewFile\<close> and by \<^verbatim>\<open>renameFile\<close> with the validation message,
  and no event takes place: nothing is written or renamed.  For \<^verbatim>\<open>renameFile\<close> this holds
  whichever of the two paths is the bad one, whatever the other path is.
\<close>

theorem unsafe_paths_rejected_without_mutation:
  assumes "\<not> is_string p \<or> p = JStr [] \<or> has_parent_segment (str_of p)"
  shows "createNewFile e base p content =
           ([], Resolved ''Error: Invalid or potentially unsafe file path for new_file.'')
       \<and> renameFile e base p q =
           ([], Resolved ''Error: Invalid or potentially unsafe file paths for modify_file (rename).'')
       \<and> renameFile e base q p =
           ([], Resolved ''Error: Invalid or potentially unsafe file paths for modify_file (rename).'')"
  using unsafe_path_cases [OF assms] by (simp add: createNewFile_def renameFile_def)

theorem unsafe_paths_rejected_without_mutation_witness:
  "has_parent_segment ''docs/../../etc/passwd''
   \<and> createNewFile quiet_env (JStr ''/work'') (JStr ''docs/../../etc/passwd'') (JStr ''x'') =
        ([], Resolved ''Error: Invalid or potentially unsafe file path for new_file.'')
   \<and> renameFile quiet_env (JStr ''/work'') (JStr ''docs/../../etc/passwd'') (JStr ''b.txt'') =
        ([], Resolved ''Error: Invalid or potentially unsafe file paths for modify_file (rename).'')
   \<and> renameFile quiet_env (JStr ''/work'') (JStr ''b.txt'') (JStr ''docs/../../etc/passwd'') =
        ([], Resolved ''Error: Invalid or potentially unsafe file paths for modify_file (rename).'')"
proof -
  have h: "has_parent_segment ''docs/../../etc/passwd''"
    by (simp add: has_parent_segment_def is_sep_def)
  then have "\<not> is_string (JStr ''docs/../../etc/passwd'') \<or> JStr ''docs/../../etc/passwd'' = JStr []
      \<or> has_parent_segment (str_of (JStr ''docs/../../etc/passwd''))"
    by simp
  from unsafe_paths_rejected_without_mutation [OF this, of quiet_env "JStr ''/work''" "JStr ''x''" "JStr ''b.txt''"] h
  show ?thesis by simp
qed

section \<open>The prefix check\<close>

text \<open>
  Claim C1 (what the code does at a failing input).  The working directory is \<^verbatim>\<open>/work\<close>
  and the path argument is the absolute path \<^verbatim>\<open>/work2/x\<close>.  It resolves to itself, a path
  outside \<^verbatim>\<open>/work\<close>; but the check compares strings, \<^verbatim>\<open>/work2/x\<close> starts with
  \<^verbatim>\<open>/work\<close>, and the file is written.  The same holds for the new path of a rename.
\<close>

theorem sibling_directory_passes_prefix_check:
  "\<not> inside_directory ''/work'' ''/work2/x''
   \<and> path_resolve (cwd quiet_env) [JStr ''/work''] = Returned ''/work''
   \<and> path_resolve (cwd quiet_env) [JStr ''/work'', JStr ''/work2/x''] = Returned ''/work2/x''
   \<and> createNewFile quiet_env (JStr ''/work'') (JStr ''/work2/x'') (JStr ''data'') =
       ([FsWriteFile ''/work2/x'' (JStr ''data'')],
        Resolved (''File '' @ dq @ ''/work2/x'' @ dq @ '' created successfully in /work.''))
   \<and> renameFile quiet_env (JStr ''/work'') (JStr ''a.txt'') (JStr ''/work2/a.txt'') =
       ([FsRename ''/work/a.txt'' ''/work2/a.txt''],
        Resolved (''File '' @ dq @ ''a.txt'' @ dq @ '' renamed/moved to '' @ dq @ ''/work2/a.txt'' @ dq
           @ '' successfully in /work.''))"
  by code_simp

text \<open>
  What the check does reject: a path that passes the validation and whose resolution does
  not start with the resolved working directory, as a string.  Then nothing is written or
  renamed, and for a rename it is enough that one of the two paths is such a path.
\<close>

theorem prefix_check_rejects_without_mutation:
  assumes "\<not> unsafe_path p" and "\<not> unsafe_path q"
    and "path_resolve (cwd e) [JStr base, p] = Returned a"
    and "path_resolve (cwd e) [JStr base, q] = Returned a'"
    and "path_resolve (cwd e) [JStr base] = Returned b"
    and "\<not> startsWith a b"
  shows "createNewFile e (JStr base) p content =
           ([], Resolved ''Error: File path is outside the allowed working directory for new_file.'')
       \<and> renameFile e (JStr base) p q =
           ([], Resolved ''Error: File paths are outside the allowed working directory for modify_file (rename).'')
       \<and> renameFile e (JStr base) q p =
           ([], Resolved ''Error: File paths are outside the allowed working directory for modify_file (rename).'')"
  using assms by (simp add: createNewFile_def renameFile_def)

theorem prefix_check_rejects_without_mutation_witness:
  "createNewFile quiet_env (JStr ''/work'') (JStr ''/etc/passwd'') (JStr ''x'') =
           ([], Resolved ''Error: File path is outside the allowed working directory for new_file.'')
   \<and> renameFile quiet_env (JStr ''/work'') (JStr ''/etc/passwd'') (JStr ''a.txt'') =
           ([], Resolved ''Error: File paths are outside the allowed working directory for modify_file (rename).'')
   \<and> renameFile quiet_env (JStr ''/work'') (JStr ''a.txt'') (JStr ''/etc/passwd'') =
           ([], Resolved ''Error: File paths are outside the allowed working directory for modify_file (rename).'')"
proof -
  have 1: "\<not> unsafe_path (JStr ''/etc/passwd'')" by code_simp
  have 2: "\<not> unsafe_path (JStr ''a.txt'')" by code_simp
  have 3: "path_resolve (cwd quiet_env) [JStr ''/work'', JStr ''/etc/passwd''] = Returned ''/etc/passwd''"
    by code_simp
  have 4: "path_resolve (cwd quiet_env) [JStr ''/work'', JStr ''a.txt''] = Returned ''/work/a.txt''"
    by code_simp
  have 5: "path_resolve (cwd quiet_env) [JStr ''/work''] = Returned ''/work''" by code_simp
  have 6: "\<not> startsWith ''/etc/passwd'' ''/work''" by code_simp
  show ?thesis
    by (rule prefix_check_rejects_without_mutation [OF 1 2 3 4 5 6])
qed

section \<open>The outcome of a shell command\<close>

lemma trim_end_append_spaces:
  "\<forall>c\<in>set ys. is_space c \<Longrightarrow> trim_end (xs @ ys) = trim_end xs"
  by (simp add: trim_end_def dropWhile_append)

lemma trim_end_append_text:
  "\<not> (\<forall>c\<in>set ys. is_space c) \<Longrightarrow> trim_end (xs @ ys) = xs @ trim_end ys"
  by (auto simp: trim_end_def dropWhile_append1)

lemma sublist_trim_end_self: "sublist (trim_end t) t"
proof -
  have "suffix (dropWhile is_space (rev t)) (rev t)" by (rule suffix_dropWhile)
  then have "prefix (trim_end t) t"
    by (simp add: trim_end_def suffix_to_prefix)
  then show ?thesis by (rule prefix_imp_sublist)
qed

lemma sublist_trim_end_middle: "sublist (trim_end t) (trim_end (p @ t @ q))"
proof (cases "\<forall>c\<in>set q. is_space c")
  case q_spaces: True
  have eq: "trim_end (p @ t @ q) = trim_end (p @ t)"
    using trim_end_append_spaces [OF q_spaces, of "p @ t"] by simp
  show ?thesis
  proof (cases "\<forall>c\<in>set t. is_space c")
    case True
    then have "trim_end t = []" by (simp add: trim_end_def)
    then show ?thesis by simp
  next
    case False
    then have "trim_end (p @ t) = p @ trim_end t" by (rule trim_end_append_text)
    with eq show ?thesis by simp
  qed
next
  case False
  then have "trim_end ((p @ t) @ q) = (p @ t) @ trim_end q" by (rule trim_end_append_text)
  then have eq: "trim_end (p @ t @ q) = p @ t @ trim_end q" by simp
  have "sublist (trim_end t) t" by (rule sublist_trim_end_self)
  moreover have "sublist t (p @ t @ trim_end q)" by simp
  ultimately have "sublist (trim_end t) (p @ t @ trim_end q)"
    by (rule sublist_order.order_trans)
  with eq show ?thesis by simp
qed

lemma trim_no_leading_space: "\<not> is_space c \<Longrightarrow> trim (c # cs) = trim_end (c # cs)"
  by (simp add: trim_def)

lemma compose_output_contains_stdout: "sublist (trim_end out) (compose_output out err failure)"
proof (cases "out = []")
  case True
  then show ?thesis by (simp add: trim_end_def)
next
  case False
  let ?q = "nl @ (if err \<noteq> [] then ''Stderr:'' @ nl @ err @ nl else [])
              @ (case failure of None \<Rightarrow> [] | Some m \<Rightarrow> ''Execution Error: '' @ m @ nl)"
  have "compose_output out err failure = trim_end ((''Stdout:'' @ nl) @ out @ ?q)"
    using False by (simp add: compose_output_def Let_def trim_def is_space_def)
  then show ?thesis by (simp only: sublist_trim_end_middle)
qed

lemma compose_output_contains_stderr: "sublist (trim_end err) (compose_output out err failure)"
proof (cases "err = []")
  case True
  then show ?thesis by (simp add: trim_end_def)
next
  case False
  let ?p = "(if out \<noteq> [] then ''Stdout:'' @ nl @ out @ nl else []) @ ''Stderr:'' @ nl"
  let ?q = "nl @ (case failure of None \<Rightarrow> [] | Some m \<Rightarrow> ''Execution Error: '' @ m @ nl)"
  have "compose_output out err failure = trim_end (?p @ err @ ?q)"
    using False by (simp add: compose_output_def Let_def trim_def is_space_def)
  then show ?thesis by (simp only: sublist_trim_end_middle)
qed

lemma compose_output_contains_error:
  "sublist (trim_end m) (compose_output out err (Some m))
   \<and> sublist ''Execution Error:'' (compose_output out err (Some m))"
proof -
  let ?p = "(if out \<noteq> [] then ''Stdout:'' @ nl @ out @ nl else [])
              @ (if err \<noteq> [] then ''Stderr:'' @ nl @ err @ nl else [])"
  have eq: "compose_output out err (Some m) = trim_end (?p @ ''Execution Error: '' @ m @ nl)"
    by (simp add: compose_output_def Let_def trim_def is_space_def)
  have 1: "sublist (trim_end m) (trim_end ((?p @ ''Execution Error: '') @ m @ nl))"
    by (rule sublist_trim_end_middle)
  have "trim_end ''Execution Error:'' = ''Execution Error:''"
    by (simp add: trim_end_def is_space_def)
  then have 2: "sublist ''Execution Error:'' (trim_end (?p @ ''Execution Error:'' @ ('' '' @ m @ nl)))"
    using sublist_trim_end_middle [of "''Execution Error:''" ?p "'' '' @ m @ nl"] by simp
  show ?thesis using eq 1 2 by simp
qed

lemma compose_output_no_output:
  "compose_output [] [] None = ''Command executed, no output produced.''"
  by (simp add: compose_output_def trim_def trim_end_def is_space_def)

text \<open>
  Claim C7 as stated fails in three ways.  A command that prints \<^verbatim>\<open>hi\<close> and a line feed
  yields \<^verbatim>\<open>Stdout:\<close>, a line feed and \<^verbatim>\<open>hi\<close>: the final \<^verbatim>\<open>trim\<close> removes the end
  of the output, so the outcome does not contain the standard output as it was.  The message
  for no output begins with a capital letter.  A command that never ends leaves the promise
  pending: nothing is returned.
\<close>

theorem runShellCommand_trims_and_may_not_end:
  "snd (runShellCommand echo_env (JStr ''/work'') (JStr ''echo hi'')) = Resolved (''Stdout:'' @ nl @ ''hi'')
   \<and> \<not> sublist (''hi'' @ nl) (''Stdout:'' @ nl @ ''hi'')
   \<and> snd (runShellCommand quiet_env (JStr ''/work'') (JStr ''true'')) = Resolved ''Command executed, no output produced.''
   \<and> ''Command executed, no output produced.'' \<noteq> ''command executed, no output produced.''
   \<and> snd (runShellCommand sleeping_env (JStr ''/work'') (JStr ''sleep infinity'')) = Pending"
  by code_simp

text \<open>
  Claim C7, amended.  The promise of \<^verbatim>\<open>runShellCommand\<close> is never rejected.  A command
  that is not a string or is empty gives the validation message and no event.  For any other
  command: while it runs the promise is pending; if \<^verbatim>\<open>exec\<close> throws, the outcome reports
  it; if the command ends, with or without an error, the outcome is a text that contains the
  standard output, the standard error and the error message, each up to the white space at its
  end (which the final \<^verbatim>\<open>trim\<close> may remove), and with no output at all it is
  \<^verbatim>\<open>Command executed, no output produced.\<close>
\<close>

theorem runShellCommand_outcome:
  "(\<forall>m. snd (runShellCommand e basePath c) \<noteq> Rejected m)
   \<and> (\<not> is_string c \<or> c = JStr [] \<longrightarrow>
        runShellCommand e basePath c = ([], Resolved ''Error: Invalid command for run_command.''))
   \<and> (cmd \<noteq> [] \<and> exec_command e cmd basePath = ExecRunning \<longrightarrow>
        snd (runShellCommand e basePath (JStr cmd)) = Pending)
   \<and> (cmd \<noteq> [] \<and> exec_command e cmd basePath = ExecThrows m \<longrightarrow>
        snd (runShellCommand e basePath (JStr cmd)) =
          Resolved (''Error executing command '' @ dq @ cmd @ dq @ '': '' @ m))
   \<and> (cmd \<noteq> [] \<and> exec_command e cmd basePath = ExecSuccess out err \<longrightarrow>
        (\<exists>r. snd (runShellCommand e basePath (JStr cmd)) = Resolved r
           \<and> sublist (trim_end out) r \<and> sublist (trim_end err) r
           \<and> (out = [] \<and> err = [] \<longrightarrow> r = ''Command executed, no output produced.'')))
   \<and> (cmd \<noteq> [] \<and> exec_command e cmd basePath = ExecError m out err \<longrightarrow>
        (\<exists>r. snd (runShellCommand e basePath (JStr cmd)) = Resolved r
           \<and> sublist (trim_end out) r \<and> sublist (trim_end err) r \<and> sublist (trim_end m) r
           \<and> sublist ''Execution Error:'' r))"
proof (intro conjI allI impI)
  fix m'
  show "snd (runShellCommand e basePath c) \<noteq> Rejected m'"
    by (simp add: runShellCommand_def split: exec_outcome.splits)
next
  assume "\<not> is_string c \<or> c = JStr []"
  then show "runShellCommand e basePath c = ([], Resolved ''Error: Invalid command for run_command.'')"
    by (cases c) (auto simp: runShellCommand_def)
next
  assume "cmd \<noteq> [] \<and> exec_command e cmd basePath = ExecRunning"
  then show "snd (runShellCommand e basePath (JStr cmd)) = Pending"
    by (simp add: runShellCommand_def)
next
  assume "cmd \<noteq> [] \<and> exec_command e cmd basePath = ExecThrows m"
  then show "snd (runShellCommand e basePath (JStr cmd)) =
          Resolved (''Error executing command '' @ dq @ cmd @ dq @ '': '' @ m)"
    by (simp add: runShellCommand_def)
next
  assume a: "cmd \<noteq> [] \<and> exec_command e cmd basePath = ExecSuccess out err"
  then have "snd (runShellCommand e basePath (JStr cmd)) = Resolved (compose_output out err None)"
    by (simp add: runShellCommand_def)
  then show "\<exists>r. snd (runShellCommand e basePath (JStr cmd)) = Resolved r
           \<and> sublist (trim_end out) r \<and> sublist (trim_end err) r
           \<and> (out = [] \<and> err = [] \<longrightarrow> r = ''Command executed, no output produced.'')"
    using compose_output_contains_stdout [of out err None]
      compose_output_contains_stderr [of err out None] compose_output_no_output
    by auto
next
  assume a: "cmd \<noteq> [] \<and> exec_command e cmd basePath = ExecError m out err"
  let ?err = "if err \<noteq> [] then err else m"
  from a have r: "snd (runShellCommand e basePath (JStr cmd)) = Resolved (compose_output out ?err (Some m))"
    by (simp add: runShellCommand_def)
  have "sublist (trim_end err) (compose_output out ?err (Some m))"
  proof (cases "err = []")
    case True
    then show ?thesis by (simp add: trim_end_def)
  next
    case False
    then show ?thesis using compose_output_contains_stderr [of err out "Some m"] by simp
  qed
  then show "\<exists>r. snd (runShellCommand e basePath (JStr cmd)) = Resolved r
           \<and> sublist (trim_end out) r \<and> sublist (trim_end err) r \<and> sublist (trim_end m) r
           \<and> sublist ''Execution Error:'' r"
    using r compose_output_contains_stdout [of out ?err "Some m"]
      compose_output_contains_error [of m out ?err]
    by simp
qed

theorem runShellCommand_outcome_witness:
  "runShellCommand quiet_env (JStr ''/work'') (JNum 7) = ([], Resolved ''Error: Invalid command for run_command.'')
   \<and> snd (runShellCommand sleeping_env (JStr ''/work'') (JStr ''sleep infinity'')) = Pending
   \<and> (\<exists>r. snd (runShellCommand echo_env (JStr ''/work'') (JStr ''echo hi'')) = Resolved r
           \<and> sublist ''hi'' r)
   \<and> (\<exists>r. snd (runShellCommand failing_env (JStr ''/work'') (JStr ''ls nowhere'')) = Resolved r
           \<and> sublist ''ls: nowhere: No such file or directory'' r
           \<and> sublist ''Command failed: ls nowhere'' r)"
proof -
  have 1: "\<not> is_string (JNum 7) \<or> JNum 7 = JStr []" by simp
  have 2: "''sleep infinity'' \<noteq> [] \<and> exec_command sleeping_env ''sleep infinity'' (JStr ''/work'') = ExecRunning"
    by (simp add: sleeping_env_def quiet_env_def)
  have 3: "''echo hi'' \<noteq> [] \<and> exec_command echo_env ''echo hi'' (JStr ''/work'') = ExecSuccess (''hi'' @ nl) []"
    by (simp add: echo_env_def quiet_env_def)
  have 4: "''ls nowhere'' \<noteq> [] \<and> exec_command failing_env ''ls nowhere'' (JStr ''/work'')
      = ExecError ''Command failed: ls nowhere'' [] (''ls: nowhere: No such file or directory'' @ nl)"
    by (simp add: failing_env_def quiet_env_def)
  have t1: "trim_end (''hi'' @ nl) = ''hi''" by (simp add: trim_end_def is_space_def)
  have t2: "trim_end (''ls: nowhere: No such file or directory'' @ nl) = ''ls: nowhere: No such file or directory''"
    by (simp add: trim_end_def is_space_def)
  have t3: "trim_end ''Command failed: ls nowhere'' = ''Command failed: ls nowhere''"
    by (simp add: trim_end_def is_space_def)
  have w1: "runShellCommand quiet_env (JStr ''/work'') (JNum 7) = ([], Resolved ''Error: Invalid command for run_command.'')"
    using runShellCommand_outcome [of quiet_env "JStr ''/work''" "JNum 7"] 1 by blast
  have w2: "snd (runShellCommand sleeping_env (JStr ''/work'') (JStr ''sleep infinity'')) = Pending"
    using runShellCommand_outcome [of sleeping_env "JStr ''/work''" _ "''sleep infinity''"] 2 by blast
  have "\<exists>r. snd (runShellCommand echo_env (JStr ''/work'') (JStr ''echo hi'')) = Resolved r
           \<and> sublist (trim_end (''hi'' @ nl)) r"
    using runShellCommand_outcome [of echo_env "JStr ''/work''" _ "''echo hi''" _ "''hi'' @ nl" "[]"] 3
    by blast
  then have w3: "\<exists>r. snd (runShellCommand echo_env (JStr ''/work'') (JStr ''echo hi'')) = Resolved r
           \<and> sublist ''hi'' r"
    by (simp only: t1)
  have "\<exists>r. snd (runShellCommand failing_env (JStr ''/work'') (JStr ''ls nowhere'')) = Resolved r
           \<and> sublist (trim_end (''ls: nowhere: No such file or directory'' @ nl)) r
           \<and> sublist (trim_end ''Command failed: ls nowhere'') r"
    using runShellCommand_outcome [of failing_env "JStr ''/work''" _ "''ls nowhere''"
        "''Command failed: ls nowhere''" "[]" "''ls: nowhere: No such file or directory'' @ nl"] 4
    by blast
  then have w4: "\<exists>r. snd (runShellCommand failing_env (JStr ''/work'') (JStr ''ls nowhere'')) = Resolved r
           \<and> sublist ''ls: nowhere: No such file or directory'' r
           \<and> sublist ''Command failed: ls nowhere'' r"
    by (simp only: t2 t3)
  show ?thesis using w1 w2 w3 w4 by blast
qed

section \<open>Confirmation before a tool runs\<close>

text \<open>
  Claim C3.  A call named \<^verbatim>\<open>web_search\<close> is handled as a confirmed call whatever the
  user would answer, and no event of its handling shows the action or asks a question.  For a
  call of any other name the handling begins by showing the tool's name, its arguments and
  the current directory (and a warning for \<^verbatim>\<open>run_command\<close>), and asks the confirmation
  question; when file mode is active the directory shown is set.
\<close>

theorem web_search_auto_approved_others_prompt:
  "(name tc = ''web_search'' \<longrightarrow>
      handle_function_call e s tc answers = run_confirmed e s tc answers
      \<and> (\<forall>ev\<in>set (fst (handle_function_call e s tc answers)). \<not> confirmation_event ev))
   \<and> (name tc \<noteq> ''web_search'' \<longrightarrow>
      (\<exists>more. fst (handle_function_call e s tc answers) =
         [ConsoleLog (nl @ ''--- ACTION CONFIRMATION ---''),
          ConsoleLog ''Zeno wants to perform the following action:'',
          ShowTool (name tc), ShowArguments (args tc), ShowDirectory (currentDir s)]
         @ (if name tc = ''run_command''
            then [ConsoleLog ''WARNING: Executing shell commands can be dangerous!''] else [])
         @ Question confirm_question # more)
      \<and> (files_active s \<longrightarrow> truthy (currentDir s)))"
proof (intro conjI impI)
  assume w: "name tc = ''web_search''"
  then show eq: "handle_function_call e s tc answers = run_confirmed e s tc answers"
    by (simp add: handle_function_call_def run_decided_def emit_def)
  show "\<forall>ev\<in>set (fst (handle_function_call e s tc answers)). \<not> confirmation_event ev"
    unfolding eq by (rule run_confirmed_web_search_events [OF w])
next
  assume n: "name tc \<noteq> ''web_search''"
  obtain more where m: "fst (confirm_loop answers) = Question confirm_question # more"
    using fst_confirm_loop by blast
  obtain evs r where c: "confirm_loop answers = (evs, r)" by (cases "confirm_loop answers")
  with m have evs: "evs = Question confirm_question # more" by simp
  have "\<exists>more'. fst (handle_function_call e s tc answers) = confirmation_display s tc @ evs @ more'"
    using n c by (cases r) (auto simp: handle_function_call_def handleToolConfirmation_def)
  then show "\<exists>more. fst (handle_function_call e s tc answers) =
         [ConsoleLog (nl @ ''--- ACTION CONFIRMATION ---''),
          ConsoleLog ''Zeno wants to perform the following action:'',
          ShowTool (name tc), ShowArguments (args tc), ShowDirectory (currentDir s)]
         @ (if name tc = ''run_command''
            then [ConsoleLog ''WARNING: Executing shell commands can be dangerous!''] else [])
         @ Question confirm_question # more"
    using n evs by (auto simp: confirmation_display_def)
next
  assume "files_active s"
  then show "truthy (currentDir s)" by (rule currentDir_active)
qed

theorem web_search_auto_approved_others_prompt_witness:
  "handle_function_call quiet_env work_state search_call [''2''] = run_confirmed quiet_env work_state search_call [''2'']
   \<and> list_all (\<lambda>ev. \<not> confirmation_event ev) (fst (handle_function_call quiet_env work_state search_call [''2'']))
   \<and> (\<exists>more. fst (handle_function_call quiet_env work_state note_call []) =
         [ConsoleLog (nl @ ''--- ACTION CONFIRMATION ---''),
          ConsoleLog ''Zeno wants to perform the following action:'',
          ShowTool ''new_file'', ShowArguments (JObj [(''file_path'', JStr ''note.txt'')]),
          ShowDirectory (JStr ''/work''), Question confirm_question] @ more)"
proof -
  have 1: "name search_call = ''web_search''" by (simp add: search_call_def)
  have 2: "name note_call \<noteq> ''web_search''" by (simp add: note_call_def)
  have 3: "name note_call \<noteq> ''run_command''" by (simp add: note_call_def)
  have 4: "currentDir work_state = JStr ''/work''" by (simp add: currentDir_def work_state_def js_or_def)
  have 5: "name note_call = ''new_file''" "args note_call = JObj [(''file_path'', JStr ''note.txt'')]"
    by (simp_all add: note_call_def)
  have a: "handle_function_call quiet_env work_state search_call [''2''] = run_confirmed quiet_env work_state search_call [''2'']
      \<and> (\<forall>ev\<in>set (fst (handle_function_call quiet_env work_state search_call [''2''])). \<not> confirmation_event ev)"
    using web_search_auto_approved_others_prompt [of search_call quiet_env work_state "[''2'']"] 1 by blast
  have "\<exists>more. fst (handle_function_call quiet_env work_state note_call []) =
         [ConsoleLog (nl @ ''--- ACTION CONFIRMATION ---''),
          ConsoleLog ''Zeno wants to perform the following action:'',
          ShowTool (name note_call), ShowArguments (args note_call), ShowDirectory (currentDir work_state)]
         @ (if name note_call = ''run_command''
            then [ConsoleLog ''WARNING: Executing shell commands can be dangerous!''] else [])
         @ Question confirm_question # more"
    using web_search_auto_approved_others_prompt [of note_call quiet_env work_state "[]"] 2 by blast
  then have b: "\<exists>more. fst (handle_function_call quiet_env work_state note_call []) =
         [ConsoleLog (nl @ ''--- ACTION CONFIRMATION ---''),
          ConsoleLog ''Zeno wants to perform the following action:'',
          ShowTool ''new_file'', ShowArguments (JObj [(''file_path'', JStr ''note.txt'')]),
          ShowDirectory (JStr ''/work''), Question confirm_question] @ more"
    by (simp add: 3 4 5)
  show ?thesis using a b by (simp add: list_all_iff)
qed

lemma explanation_requests_append [simp]:
  "explanation_requests (xs @ ys) = explanation_requests xs + explanation_requests ys"
  by (simp add: explanation_requests_def)

lemma explanation_requests_Nil [simp]: "explanation_requests [] = 0"
  by (simp add: explanation_requests_def)

lemma explanation_requests_Cons [simp]:
  "explanation_requests (ev # evs) = (if explanation_request ev then 1 else 0) + explanation_requests evs"
  by (simp add: explanation_requests_def)

lemma confirm_loop_resolved:
  "snd (confirm_loop answers) = Resolved (c, rest) \<Longrightarrow>
     \<exists>invalid choice. answers = invalid @ choice # rest
       \<and> (\<forall>x\<in>set invalid. x \<noteq> ''1'' \<and> x \<noteq> ''2'' \<and> x \<noteq> ''3'')
       \<and> (choice = ''1'' \<and> c = \<lparr>confirmed = True, explain = False\<rparr>
          \<or> choice = ''2'' \<and> c = \<lparr>confirmed = False, explain = False\<rparr>
          \<or> choice = ''3'' \<and> c = \<lparr>confirmed = False, explain = True\<rparr>)"
proof (induction answers)
  case Nil
  then show ?case by simp
next
  case (Cons a answers)
  show ?case
  proof (cases "a = ''1'' \<or> a = ''2'' \<or> a = ''3''")
    case True
    with Cons.prems have "rest = answers \<and> (a = ''1'' \<and> c = \<lparr>confirmed = True, explain = False\<rparr>
          \<or> a = ''2'' \<and> c = \<lparr>confirmed = False, explain = False\<rparr>
          \<or> a = ''3'' \<and> c = \<lparr>confirmed = False, explain = True\<rparr>)"
      by (auto split: if_splits)
    then have "a # answers = [] @ a # rest \<and> (\<forall>x\<in>set []. x \<noteq> ''1'' \<and> x \<noteq> ''2'' \<and> x \<noteq> ''3'')
       \<and> (a = ''1'' \<and> c = \<lparr>confirmed = True, explain = False\<rparr>
          \<or> a = ''2'' \<and> c = \<lparr>confirmed = False, explain = False\<rparr>
          \<or> a = ''3'' \<and> c = \<lparr>confirmed = False, explain = True\<rparr>)"
      by simp
    then show ?thesis by blast
  next
    case False
    with Cons.prems have "snd (confirm_loop answers) = Resolved (c, rest)" by simp
    from Cons.IH [OF this] obtain invalid choice where
      "answers = invalid @ choice # rest"
      "\<forall>x\<in>set invalid. x \<noteq> ''1'' \<and> x \<noteq> ''2'' \<and> x \<noteq> ''3''"
      "choice = ''1'' \<and> c = \<lparr>confirmed = True, explain = False\<rparr>
          \<or> choice = ''2'' \<and> c = \<lparr>confirmed = False, explain = False\<rparr>
          \<or> choice = ''3'' \<and> c = \<lparr>confirmed = False, explain = True\<rparr>"
      by blast
    with False have "a # answers = (a # invalid) @ choice # rest
       \<and> (\<forall>x\<in>set (a # invalid). x \<noteq> ''1'' \<and> x \<noteq> ''2'' \<and> x \<noteq> ''3'')
       \<and> (choice = ''1'' \<and> c = \<lparr>confirmed = True, explain = False\<rparr>
          \<or> choice = ''2'' \<and> c = \<lparr>confirmed = False, explain = False\<rparr>
          \<or> choice = ''3'' \<and> c = \<lparr>confirmed = False, explain = True\<rparr>)"
      by simp
    then show ?thesis by blast
  qed
qed

lemma reconfirm_loop_resolved:
  "snd (reconfirm_loop answers) = Resolved (ok, rest) \<Longrightarrow>
     \<exists>invalid choice. answers = invalid @ choice # rest
       \<and> (\<forall>x\<in>set invalid. x \<noteq> ''1'' \<and> x \<noteq> ''2'')
       \<and> (choice = ''1'' \<and> ok \<or> choice = ''2'' \<and> \<not> ok)"
proof (induction answers)
  case Nil
  then show ?case by simp
next
  case (Cons a answers)
  show ?case
  proof (cases "a = ''1'' \<or> a = ''2''")
    case True
    with Cons.prems have "rest = answers \<and> (a = ''1'' \<and> ok \<or> a = ''2'' \<and> \<not> ok)"
      by (auto split: if_splits)
    then have "a # answers = [] @ a # rest \<and> (\<forall>x\<in>set []. x \<noteq> ''1'' \<and> x \<noteq> ''2'')
       \<and> (a = ''1'' \<and> ok \<or> a = ''2'' \<and> \<not> ok)"
      by simp
    then show ?thesis by blast
  next
    case False
    with Cons.prems have "snd (reconfirm_loop answers) = Resolved (ok, rest)" by simp
    from Cons.IH [OF this] obtain invalid choice where
      "answers = invalid @ choice # rest"
      "\<forall>x\<in>set invalid. x \<noteq> ''1'' \<and> x \<noteq> ''2''"
      "choice = ''1'' \<and> ok \<or> choice = ''2'' \<and> \<not> ok"
      by blast
    with False have "a # answers = (a # invalid) @ choice # rest
       \<and> (\<forall>x\<in>set (a # invalid). x \<noteq> ''1'' \<and> x \<noteq> ''2'')
       \<and> (choice = ''1'' \<and> ok \<or> choice = ''2'' \<and> \<not> ok)"
      by simp
    then show ?thesis by blast
  qed
qed

lemma confirm_loop_not_rejected: "snd (confirm_loop answers) \<noteq> Rejected m"
  by (induction answers) auto

lemma reconfirm_loop_not_rejected: "snd (reconfirm_loop answers) \<noteq> Rejected m"
  by (induction answers) auto

lemma confirm_loop_pending:
  "(snd (confirm_loop answers) = Pending) = (\<forall>x\<in>set answers. x \<noteq> ''1'' \<and> x \<noteq> ''2'' \<and> x \<noteq> ''3'')"
  by (induction answers) auto

lemma reconfirm_loop_pending:
  "(snd (reconfirm_loop answers) = Pending) = (\<forall>x\<in>set answers. x \<noteq> ''1'' \<and> x \<noteq> ''2'')"
  by (induction answers) auto

lemma confirm_loop_questions:
  "explanation_requests (fst (confirm_loop answers)) = 0"
  by (induction answers) auto

lemma reconfirm_loop_questions:
  "explanation_requests (fst (reconfirm_loop answers)) = 0"
  by (induction answers) auto

lemma createNewFile_no_request: "explanation_requests (fst (createNewFile e b p c)) = 0"
  by (simp add: createNewFile_def split: result.splits option.splits)

lemma renameFile_no_request: "explanation_requests (fst (renameFile e b p q)) = 0"
  by (simp add: renameFile_def split: result.splits option.splits)

lemma runShellCommand_no_request: "explanation_requests (fst (runShellCommand e b c)) = 0"
  by (simp add: runShellCommand_def)

lemma execute_tool_no_request: "explanation_requests (fst (execute_tool e s tc)) = 0"
  by (simp add: execute_tool_def createNewFile_no_request renameFile_no_request
      runShellCommand_no_request split: result.splits)

lemma run_decided_no_request: "explanation_requests (fst (run_decided e s tc ok answers)) = 0"
proof -
  obtain evs r where x: "execute_tool e (push (Turn RoleModel [FunctionCallPart tc]) s) tc = (evs, r)"
    by (cases "execute_tool e (push (Turn RoleModel [FunctionCallPart tc]) s) tc")
  then have "explanation_requests evs = 0"
    using execute_tool_no_request [of e "push (Turn RoleModel [FunctionCallPart tc]) s" tc] by simp
  then show ?thesis
    using x by (cases r) (auto simp: run_decided_def run_confirmed_def run_denied_def Let_def
        communication_error_def)
qed

lemma run_explanation_one_request:
  "explanation_requests (fst (run_explanation e s tc answers)) = 1"
proof -
  obtain evs r where x: "reconfirm_loop answers = (evs, r)" by (cases "reconfirm_loop answers")
  then have 0: "explanation_requests evs = 0"
    using reconfirm_loop_questions [of answers] by simp
  show ?thesis
  proof (cases "explanation e (name tc) (args tc)")
    case explained: (Resolved explanationText)
    show ?thesis
    proof (cases r)
      case (Resolved y)
      obtain ok rest where "y = (ok, rest)" by (cases y)
      with Resolved explained x 0 show ?thesis
        by (simp add: run_explanation_def Let_def run_decided_no_request)
    next
      case (Rejected m)
      with explained x 0 show ?thesis
        by (simp add: run_explanation_def Let_def communication_error_def)
    next
      case Pending
      with explained x 0 show ?thesis
        by (simp add: run_explanation_def Let_def)
    qed
  next
    case (Rejected m)
    then show ?thesis by (simp add: run_explanation_def Let_def communication_error_def)
  next
    case Pending
    then show ?thesis by (simp add: run_explanation_def Let_def)
  qed
qed

lemma confirmation_display_no_request: "explanation_requests (confirmation_display s tc) = 0"
  by (simp add: confirmation_display_def)

lemma handle_function_call_requests:
  "explanation_requests (fst (handle_function_call e s tc answers)) \<le> 1"
proof (cases "name tc = ''web_search''")
  case True
  then have "handle_function_call e s tc answers = run_decided e s tc True answers"
    by (simp add: handle_function_call_def emit_def)
  then show ?thesis by (simp add: run_decided_no_request)
next
  case False
  obtain evs r where x: "confirm_loop answers = (evs, r)" by (cases "confirm_loop answers")
  then have 0: "explanation_requests evs = 0"
    using confirm_loop_questions [of answers] by simp
  show ?thesis
  proof (cases r)
    case (Resolved y)
    obtain c rest where "y = (c, rest)" by (cases y)
    with Resolved False x 0 show ?thesis
      by (simp add: handle_function_call_def handleToolConfirmation_def
          confirmation_display_no_request run_decided_no_request run_explanation_one_request)
  next
    case (Rejected m)
    with False x 0 show ?thesis
      by (simp add: handle_function_call_def handleToolConfirmation_def
          confirmation_display_no_request communication_error_def)
  next
    case Pending
    with False x 0 show ?thesis
      by (simp add: handle_function_call_def handleToolConfirmation_def
          confirmation_display_no_request)
  qed
qed

text \<open>
  Claim C8.  The first prompt resolves only at an answer that is exactly \<^verbatim>\<open>1\<close>,
  \<^verbatim>\<open>2\<close> or \<^verbatim>\<open>3\<close>, after answers that are none of them; the prompt after an
  explanation only at \<^verbatim>\<open>1\<close> or \<^verbatim>\<open>2\<close>.  Any other answer is followed by the same
  question, and the decision is that of the remaining answers; with no valid answer the
  prompt stays pending, and it never fails.  The handling of one call asks the model for an
  explanation at most once.
\<close>

theorem confirmation_resolves_only_on_valid_choice:
  "(snd (confirm_loop answers) = Resolved (c, rest) \<longrightarrow>
      (\<exists>invalid choice. answers = invalid @ choice # rest
         \<and> (\<forall>x\<in>set invalid. x \<noteq> ''1'' \<and> x \<noteq> ''2'' \<and> x \<noteq> ''3'')
         \<and> (choice = ''1'' \<and> c = \<lparr>confirmed = True, explain = False\<rparr>
            \<or> choice = ''2'' \<and> c = \<lparr>confirmed = False, explain = False\<rparr>
            \<or> choice = ''3'' \<and> c = \<lparr>confirmed = False, explain = True\<rparr>)))
   \<and> (snd (reconfirm_loop answers) = Resolved (ok, rest) \<longrightarrow>
      (\<exists>invalid choice. answers = invalid @ choice # rest
         \<and> (\<forall>x\<in>set invalid. x \<noteq> ''1'' \<and> x \<noteq> ''2'')
         \<and> (choice = ''1'' \<and> ok \<or> choice = ''2'' \<and> \<not> ok)))
   \<and> (x \<noteq> ''1'' \<and> x \<noteq> ''2'' \<and> x \<noteq> ''3'' \<longrightarrow>
        confirm_loop (x # answers) =
          (Question confirm_question # ConsoleLog ''Invalid choice. Please enter 1, 2, or 3.''
             # fst (confirm_loop answers),
           snd (confirm_loop answers)))
   \<and> (x \<noteq> ''1'' \<and> x \<noteq> ''2'' \<longrightarrow>
        reconfirm_loop (x # answers) =
          (Question reconfirm_question # ConsoleLog ''Invalid choice.'' # fst (reconfirm_loop answers),
           snd (reconfirm_loop answers)))
   \<and> ((snd (confirm_loop answers) = Pending) = (\<forall>x\<in>set answers. x \<noteq> ''1'' \<and> x \<noteq> ''2'' \<and> x \<noteq> ''3''))
   \<and> ((snd (reconfirm_loop answers) = Pending) = (\<forall>x\<in>set answers. x \<noteq> ''1'' \<and> x \<noteq> ''2''))
   \<and> (\<forall>m. snd (confirm_loop answers) \<noteq> Rejected m \<and> snd (reconfirm_loop answers) \<noteq> Rejected m)
   \<and> explanation_requests (fst (handle_function_call e s tc answers)) \<le> 1"
proof (intro conjI impI allI)
  assume "snd (confirm_loop answers) = Resolved (c, rest)"
  then show "\<exists>invalid choice. answers = invalid @ choice # rest
         \<and> (\<forall>x\<in>set invalid. x \<noteq> ''1'' \<and> x \<noteq> ''2'' \<and> x \<noteq> ''3'')
         \<and> (choice = ''1'' \<and> c = \<lparr>confirmed = True, explain = False\<rparr>
            \<or> choice = ''2'' \<and> c = \<lparr>confirmed = False, explain = False\<rparr>
            \<or> choice = ''3'' \<and> c = \<lparr>confirmed = False, explain = True\<rparr>)"
    by (rule confirm_loop_resolved)
next
  assume "snd (reconfirm_loop answers) = Resolved (ok, rest)"
  then show "\<exists>invalid choice. answers = invalid @ choice # rest
         \<and> (\<forall>x\<in>set invalid. x \<noteq> ''1'' \<and> x \<noteq> ''2'')
         \<and> (choice = ''1'' \<and> ok \<or> choice = ''2'' \<and> \<not> ok)"
    by (rule reconfirm_loop_resolved)
next
  assume "x \<noteq> ''1'' \<and> x \<noteq> ''2'' \<and> x \<noteq> ''3''"
  then show "confirm_loop (x # answers) =
          (Question confirm_question # ConsoleLog ''Invalid choice. Please enter 1, 2, or 3.''
             # fst (confirm_loop answers),
           snd (confirm_loop answers))"
    by (simp add: emit_def)
next
  assume "x \<noteq> ''1'' \<and> x \<noteq> ''2''"
  then show "reconfirm_loop (x # answers) =
          (Question reconfirm_question # ConsoleLog ''Invalid choice.'' # fst (reconfirm_loop answers),
           snd (reconfirm_loop answers))"
    by (simp add: emit_def)
next
  show "(snd (confirm_loop answers) = Pending) = (\<forall>x\<in>set answers. x \<noteq> ''1'' \<and> x \<noteq> ''2'' \<and> x \<noteq> ''3'')"
    by (rule confirm_loop_pending)
next
  show "(snd (reconfirm_loop answers) = Pending) = (\<forall>x\<in>set answers. x \<noteq> ''1'' \<and> x \<noteq> ''2'')"
    by (rule reconfirm_loop_pending)
next
  fix m show "snd (confirm_loop answers) \<noteq> Rejected m" by (rule confirm_loop_not_rejected)
next
  fix m show "snd (reconfirm_loop answers) \<noteq> Rejected m" by (rule reconfirm_loop_not_rejected)
next
  show "explanation_requests (fst (handle_function_call e s tc answers)) \<le> 1"
    by (rule handle_function_call_requests)
qed

theorem confirmation_resolves_only_on_valid_choice_witness:
  "snd (confirm_loop [''yes'', ''4'', ''2'', ''1'']) = Resolved (\<lparr>confirmed = False, explain = False\<rparr>, [''1''])
   \<and> (\<exists>invalid choice. [''yes'', ''4'', ''2'', ''1''] = invalid @ choice # [''1'']
         \<and> list_all (\<lambda>x. x \<noteq> ''1'' \<and> x \<noteq> ''2'' \<and> x \<noteq> ''3'') invalid
         \<and> choice = ''2'')
   \<and> snd (reconfirm_loop [''3'', ''1'']) = Resolved (True, [])
   \<and> (\<exists>invalid choice. [''3'', ''1''] = invalid @ [choice]
         \<and> list_all (\<lambda>x. x \<noteq> ''1'' \<and> x \<noteq> ''2'') invalid \<and> choice = ''1'')
   \<and> snd (confirm_loop [''y'', ''n'', '' 1'']) = Pending"
proof -
  have 1: "snd (confirm_loop [''yes'', ''4'', ''2'', ''1'']) = Resolved (\<lparr>confirmed = False, explain = False\<rparr>, [''1''])"
    by (simp add: emit_def)
  have 2: "snd (reconfirm_loop [''3'', ''1'']) = Resolved (True, [])"
    by (simp add: emit_def)
  have 3: "\<forall>x\<in>set [''y'', ''n'', '' 1'']. x \<noteq> ''1'' \<and> x \<noteq> ''2'' \<and> x \<noteq> ''3''"
    by simp
  have a: "\<exists>invalid choice. [''yes'', ''4'', ''2'', ''1''] = invalid @ choice # [''1'']
         \<and> (\<forall>x\<in>set invalid. x \<noteq> ''1'' \<and> x \<noteq> ''2'' \<and> x \<noteq> ''3'')
         \<and> (choice = ''1'' \<and> \<lparr>confirmed = False, explain = False\<rparr> = \<lparr>confirmed = True, explain = False\<rparr>
            \<or> choice = ''2'' \<and> \<lparr>confirmed = False, explain = False\<rparr> = \<lparr>confirmed = False, explain = False\<rparr>
            \<or> choice = ''3'' \<and> \<lparr>confirmed = False, explain = False\<rparr> = \<lparr>confirmed = False, explain = True\<rparr>)"
    using confirmation_resolves_only_on_valid_choice
      [of "[''yes'', ''4'', ''2'', ''1'']" "\<lparr>confirmed = False, explain = False\<rparr>" "[''1'']"] 1
    by blast
  have b: "\<exists>invalid choice. [''3'', ''1''] = invalid @ choice # []
         \<and> (\<forall>x\<in>set invalid. x \<noteq> ''1'' \<and> x \<noteq> ''2'')
         \<and> (choice = ''1'' \<and> True \<or> choice = ''2'' \<and> \<not> True)"
    using confirmation_resolves_only_on_valid_choice [of "[''3'', ''1'']" _ "[]" True] 2
    by blast
  have c: "snd (confirm_loop [''y'', ''n'', '' 1'']) = Pending"
    using confirmation_resolves_only_on_valid_choice [of "[''y'', ''n'', '' 1'']"] 3
    by blast
  from a have a': "\<exists>invalid choice. [''yes'', ''4'', ''2'', ''1''] = invalid @ choice # [''1'']
         \<and> list_all (\<lambda>x. x \<noteq> ''1'' \<and> x \<noteq> ''2'' \<and> x \<noteq> ''3'') invalid
         \<and> choice = ''2''"
    by (simp add: list_all_iff)
  from b have b': "\<exists>invalid choice. [''3'', ''1''] = invalid @ [choice]
         \<and> list_all (\<lambda>x. x \<noteq> ''1'' \<and> x \<noteq> ''2'') invalid \<and> choice = ''1''"
    by (simp add: list_all_iff)
  show ?thesis using 1 2 a' b' c by blast
qed

section \<open>Denial\<close>

text \<open>
  Claim C4 (what the code does at a failing input).  The user asks for an explanation
  (\<^verbatim>\<open>3\<close>) and then denies (\<^verbatim>\<open>2\<close>).  The tool is not run and the loop goes on, but the
  function call of the request is pushed twice: once before the explanation and once more on
  denial.
\<close>

theorem denial_after_explanation_logs_request_twice:
  "handle_function_call quiet_env work_state note_call [''3'', ''2''] =
     (confirmation_display work_state note_call
        @ [Question confirm_question, SendExplanationRequest ''new_file'' (args note_call),
           ConsoleLog (nl @ ''--- ACTION CONFIRMATION (after explanation) ---''),
           Question reconfirm_question, ConsoleLog ''Action denied by user.''],
      Resolved
       (work_state\<lparr>chatHistory :=
          [Turn RoleUser [TextPart ''make a note''],
           Turn RoleModel [FunctionCallPart note_call],
           Turn RoleUser [TextPart ''(System: User requested explanation for your proposed action: new_file)''],
           Turn RoleModel [TextPart ''because''],
           Turn RoleModel [FunctionCallPart note_call],
           Turn RoleFunction [FunctionResponsePart ''new_file'' ''User denied execution of this action.'']]\<rparr>,
        True, []))
   \<and> count_list
        [Turn RoleUser [TextPart ''make a note''],
         Turn RoleModel [FunctionCallPart note_call],
         Turn RoleUser [TextPart ''(System: User requested explanation for your proposed action: new_file)''],
         Turn RoleModel [TextPart ''because''],
         Turn RoleModel [FunctionCallPart note_call],
         Turn RoleFunction [FunctionResponsePart ''new_file'' ''User denied execution of this action.'']]
        (Turn RoleModel [FunctionCallPart note_call]) = 2"
  by code_simp

lemma conversation_pass_sends:
  "chatHistory s \<noteq> [] \<Longrightarrow>
     \<exists>more. fst (conversation_pass e s r answers) = SendMessage (last_parts (chatHistory s)) # more"
  by (cases r) (auto simp: conversation_pass_def split: option.splits)

lemma conversation_loop_sends:
  assumes "chatHistory s \<noteq> []"
  shows "\<exists>more. fst (conversation_loop e s replies answers) = SendMessage (last_parts (chatHistory s)) # more"
proof (cases replies)
  case Nil
  with assms show ?thesis by simp
next
  case (Cons r rs)
  obtain evs res where p: "conversation_pass e s r answers = (evs, res)"
    by (cases "conversation_pass e s r answers")
  with conversation_pass_sends [OF assms, of e r answers]
  obtain more where evs: "evs = SendMessage (last_parts (chatHistory s)) # more" by auto
  show ?thesis
  proof (cases res)
    case (Resolved y)
    obtain s2 continueLoop rest2 where "y = (s2, continueLoop, rest2)" by (cases y)
    with Resolved Cons p evs show ?thesis by simp
  next
    case (Rejected m)
    with Cons p evs show ?thesis by simp
  next
    case Pending
    with Cons p evs show ?thesis by simp
  qed
qed

text \<open>
  Denial at the first prompt.  When the answers lead the first prompt to a denial, the
  handling runs no tool, appends to the transcript the function call and one function
  response that states the denial, and sets \<^verbatim>\<open>continueLoop\<close>; the conversation loop
  then sends that response to the model.
\<close>

theorem denial_at_first_prompt:
  assumes "name tc \<noteq> ''web_search''"
    and "confirm_loop answers = (asked, Resolved (\<lparr>confirmed = False, explain = False\<rparr>, rest))"
  shows "handle_function_call e s tc answers =
           (confirmation_display s tc @ asked @ [ConsoleLog ''Action denied by user.''],
            Resolved
              (s\<lparr>chatHistory := chatHistory s @
                   [Turn RoleModel [FunctionCallPart tc],
                    Turn RoleFunction [FunctionResponsePart (name tc) ''User denied execution of this action.'']]\<rparr>,
               True, rest))
       \<and> (chatHistory s \<noteq> [] \<longrightarrow>
            (\<exists>more. fst (conversation_loop e s (Reply [] (Some tc) None # replies) answers) =
               SendMessage (last_parts (chatHistory s)) # confirmation_display s tc @ asked
               @ [ConsoleLog ''Action denied by user.'',
                  SendMessage [FunctionResponsePart (name tc) ''User denied execution of this action.'']]
               @ more))"
proof
  show h: "handle_function_call e s tc answers =
           (confirmation_display s tc @ asked @ [ConsoleLog ''Action denied by user.''],
            Resolved
              (s\<lparr>chatHistory := chatHistory s @
                   [Turn RoleModel [FunctionCallPart tc],
                    Turn RoleFunction [FunctionResponsePart (name tc) ''User denied execution of this action.'']]\<rparr>,
               True, rest))"
    using assms
    by (simp add: handle_function_call_def handleToolConfirmation_def run_decided_def run_denied_def
        push_def denial_text_def)
  show "chatHistory s \<noteq> [] \<longrightarrow>
            (\<exists>more. fst (conversation_loop e s (Reply [] (Some tc) None # replies) answers) =
               SendMessage (last_parts (chatHistory s)) # confirmation_display s tc @ asked
               @ [ConsoleLog ''Action denied by user.'',
                  SendMessage [FunctionResponsePart (name tc) ''User denied execution of this action.'']]
               @ more)"
  proof
    assume ne: "chatHistory s \<noteq> []"
    let ?s1 = "s\<lparr>chatHistory := chatHistory s @
                   [Turn RoleModel [FunctionCallPart tc],
                    Turn RoleFunction [FunctionResponsePart (name tc) ''User denied execution of this action.'']]\<rparr>"
    have p: "conversation_pass e s (Reply [] (Some tc) None) answers =
        (SendMessage (last_parts (chatHistory s)) # confirmation_display s tc @ asked
           @ [ConsoleLog ''Action denied by user.''], Resolved (?s1, True, rest))"
      using ne by (simp add: conversation_pass_def aggregatedFunctionCall_def h)
    have l: "last_parts (chatHistory ?s1) = [FunctionResponsePart (name tc) ''User denied execution of this action.'']"
      by (simp add: last_parts_def)
    have "chatHistory ?s1 \<noteq> []" by simp
    from conversation_loop_sends [OF this, of e replies rest]
    obtain more where "fst (conversation_loop e ?s1 replies rest) =
        SendMessage [FunctionResponsePart (name tc) ''User denied execution of this action.''] # more"
      unfolding l by blast
    then show "\<exists>more. fst (conversation_loop e s (Reply [] (Some tc) None # replies) answers) =
               SendMessage (last_parts (chatHistory s)) # confirmation_display s tc @ asked
               @ [ConsoleLog ''Action denied by user.'',
                  SendMessage [FunctionResponsePart (name tc) ''User denied execution of this action.'']]
               @ more"
      using p by simp
  qed
qed

theorem denial_at_first_prompt_witness:
  "handle_function_call quiet_env work_state note_call [''no'', ''2''] =
     (confirmation_display work_state note_call
        @ [Question confirm_question, ConsoleLog ''Invalid choice. Please enter 1, 2, or 3.'',
           Question confirm_question, ConsoleLog ''Action denied by user.''],
      Resolved
        (work_state\<lparr>chatHistory := chatHistory work_state @
             [Turn RoleModel [FunctionCallPart note_call],
              Turn RoleFunction [FunctionResponsePart (name note_call) ''User denied execution of this action.'']]\<rparr>,
         True, []))"
proof -
  have 1: "name note_call \<noteq> ''web_search''" by (simp add: note_call_def)
  have 2: "confirm_loop [''no'', ''2''] =
      ([Question confirm_question, ConsoleLog ''Invalid choice. Please enter 1, 2, or 3.'',
        Question confirm_question], Resolved (\<lparr>confirmed = False, explain = False\<rparr>, []))"
    by simp
  from denial_at_first_prompt [OF 1 2, of quiet_env work_state] show ?thesis by simp
qed

section \<open>File mode and the saved configuration\<close>

lemma startNewChatSession_no_write: "WriteConfig c \<notin> set (startNewChatSession s)"
  by (simp add: startNewChatSession_def)

text \<open>
  Claim C5 as stated fails: with file mode enabled for the saved directory \<^verbatim>\<open>/work\<close>, the
  toggle disables the mode and writes a configuration that still holds \<^verbatim>\<open>/work\<close>.
\<close>

theorem toggle_off_keeps_directory_in_saved_configuration:
  "isFilesModeEnabled work_state
   \<and> toggleFilesMode quiet_env work_state [] =
       ([ConsoleLog ''File manipulation mode DISABLED.'', MkdirConfigDir,
         WriteConfig [(''apiKey'', JStr ''key''), (''filesWorkingDirectory'', JStr ''/work'')],
         StartChat [''web_search''],
         ConsoleLog ''Chat session (re)started with gemini-2.5-flash-preview-05-20.'',
         ConsoleLog ''Web search tool is available.'',
         ConsoleLog ''File manipulation tools are DISABLED.''],
        Resolved (work_state\<lparr>isFilesModeEnabled := False\<rparr>, []))"
  by code_simp

text \<open>
  Claim C5, amended.  When file mode is enabled and the configuration directory can be made,
  the toggle disables the mode, leaves both directories as they were, and writes the
  configuration of the state once: it holds the working directory exactly when one is set and
  no temporary directory is set.
\<close>

theorem toggle_off_saves_configuration:
  assumes "isFilesModeEnabled s" and "mkdir_error e = None"
  shows "(\<exists>ev. toggleFilesMode e s answers = (ev, Resolved (s\<lparr>isFilesModeEnabled := False\<rparr>, answers))
            \<and> WriteConfig (configToSave s) \<in> set ev
            \<and> (\<forall>c. WriteConfig c \<in> set ev \<longrightarrow> c = configToSave s))
       \<and> map_of (configToSave s) ''filesWorkingDirectory'' =
           (if truthy (filesWorkingDirectory s) \<and> \<not> truthy (tempFilesWorkingDirectory s)
            then Some (filesWorkingDirectory s) else None)"
proof
  have same: "configToSave (s\<lparr>isFilesModeEnabled := False\<rparr>) = configToSave s"
    by (simp add: configToSave_def)
  show "\<exists>ev. toggleFilesMode e s answers = (ev, Resolved (s\<lparr>isFilesModeEnabled := False\<rparr>, answers))
            \<and> WriteConfig (configToSave s) \<in> set ev
            \<and> (\<forall>c. WriteConfig c \<in> set ev \<longrightarrow> c = configToSave s)"
    using assms same
    by (cases "writeConfig_error e")
       (simp_all add: toggleFilesMode_def saveConfig_def Let_def startNewChatSession_no_write)
  show "map_of (configToSave s) ''filesWorkingDirectory'' =
           (if truthy (filesWorkingDirectory s) \<and> \<not> truthy (tempFilesWorkingDirectory s)
            then Some (filesWorkingDirectory s) else None)"
    by (simp add: configToSave_def)
qed

theorem toggle_off_saves_configuration_witness:
  "isFilesModeEnabled work_state \<and> mkdir_error quiet_env = None
   \<and> (\<exists>ev. toggleFilesMode quiet_env work_state [] = (ev, Resolved (work_state\<lparr>isFilesModeEnabled := False\<rparr>, []))
         \<and> WriteConfig (configToSave work_state) \<in> set ev)
   \<and> map_of (configToSave work_state) ''filesWorkingDirectory'' = Some (JStr ''/work'')"
proof -
  have 1: "isFilesModeEnabled work_state" by (simp add: work_state_def)
  have 2: "mkdir_error quiet_env = None" by (simp add: quiet_env_def)
  have 3: "truthy (filesWorkingDirectory work_state) \<and> \<not> truthy (tempFilesWorkingDirectory work_state)"
    by (simp add: work_state_def)
  have 4: "filesWorkingDirectory work_state = JStr ''/work''" by (simp add: work_state_def)
  from toggle_off_saves_configuration [OF 1 2, of "[]"] 3 4
  have "(\<exists>ev. toggleFilesMode quiet_env work_state [] = (ev, Resolved (work_state\<lparr>isFilesModeEnabled := False\<rparr>, []))
         \<and> WriteConfig (configToSave work_state) \<in> set ev)
     \<and> map_of (configToSave work_state) ''filesWorkingDirectory'' = Some (JStr ''/work'')"
    by auto
  with 1 2 show ?thesis by blast
qed

text \<open>
  Claim C6 (what the code does at a failing input).  File mode is enabled for the saved
  directory \<^verbatim>\<open>/work\<close>.  The first toggle disables it and keeps the directory in the
  state; the second toggle asks for a directory all the same: without an answer it waits, and
  with an empty answer file mode stays disabled.
\<close>

theorem toggle_on_asks_for_directory_again:
  "snd (toggleFilesMode quiet_env work_state []) = Resolved (work_state\<lparr>isFilesModeEnabled := False\<rparr>, [])
   \<and> filesWorkingDirectory (work_state\<lparr>isFilesModeEnabled := False\<rparr>) = JStr ''/work''
   \<and> toggleFilesMode quiet_env (work_state\<lparr>isFilesModeEnabled := False\<rparr>) [] =
       ([ConsoleLog ''Enable file manipulation mode:'', Question directory_question], Pending)
   \<and> toggleFilesMode quiet_env (work_state\<lparr>isFilesModeEnabled := False\<rparr>) [''''] =
       ([ConsoleLog ''Enable file manipulation mode:'', Question directory_question,
         ConsoleLog ''No directory provided. File manipulation mode remains disabled.''],
        Resolved (work_state\<lparr>isFilesModeEnabled := False\<rparr>, []))"
  by code_simp

text \<open>
  Claim C9.  In a state whose temporary directory is set, the configuration that
  \<^verbatim>\<open>saveConfig\<close> builds and writes holds the API key and nothing else.  Choosing
  \<^verbatim>\<open>this_folder\<close> sets the temporary directory to the current directory, clears the saved
  one and writes no configuration.
\<close>

theorem temporary_directory_never_saved:
  "(tempFilesWorkingDirectory s = JStr d \<and> d \<noteq> [] \<longrightarrow>
      configToSave s = [(''apiKey'', apiKey s)]
      \<and> map_of (configToSave s) ''filesWorkingDirectory'' = None
      \<and> (\<forall>c. WriteConfig c \<in> set (fst (saveConfig e s)) \<longrightarrow> c = [(''apiKey'', apiKey s)]))
   \<and> (\<not> isFilesModeEnabled s \<and> toLowerCase (trim answer) = ''this_folder'' \<and> cwd e \<noteq> [] \<longrightarrow>
      (\<exists>ev s1. toggleFilesMode e s (answer # rest) = (ev, Resolved (s1, rest))
          \<and> isFilesModeEnabled s1
          \<and> tempFilesWorkingDirectory s1 = JStr (cwd e) \<and> filesWorkingDirectory s1 = JNull
          \<and> (\<forall>c. WriteConfig c \<notin> set ev)
          \<and> configToSave s1 = [(''apiKey'', apiKey s)]))"
proof (intro conjI impI)
  assume a: "tempFilesWorkingDirectory s = JStr d \<and> d \<noteq> []"
  then show c: "configToSave s = [(''apiKey'', apiKey s)]"
    by (simp add: configToSave_def)
  then show "map_of (configToSave s) ''filesWorkingDirectory'' = None" by simp
  show "\<forall>c. WriteConfig c \<in> set (fst (saveConfig e s)) \<longrightarrow> c = [(''apiKey'', apiKey s)]"
    using c by (auto simp: saveConfig_def split: option.splits)
next
  assume "\<not> isFilesModeEnabled s \<and> toLowerCase (trim answer) = ''this_folder'' \<and> cwd e \<noteq> []"
  then show "\<exists>ev s1. toggleFilesMode e s (answer # rest) = (ev, Resolved (s1, rest))
          \<and> isFilesModeEnabled s1
          \<and> tempFilesWorkingDirectory s1 = JStr (cwd e) \<and> filesWorkingDirectory s1 = JNull
          \<and> (\<forall>c. WriteConfig c \<notin> set ev)
          \<and> configToSave s1 = [(''apiKey'', apiKey s)]"
    by (simp add: toggleFilesMode_def Let_def startNewChatSession_no_write configToSave_def)
qed

theorem temporary_directory_never_saved_witness:
  "configToSave temporary_state = [(''apiKey'', JStr ''key'')]
   \<and> list_all (\<lambda>ev. ev = MkdirConfigDir \<or> ev = WriteConfig [(''apiKey'', JStr ''key'')])
        (fst (saveConfig quiet_env temporary_state))
   \<and> (\<exists>ev s1. toggleFilesMode quiet_env (work_state\<lparr>isFilesModeEnabled := False\<rparr>) ['' This_Folder '', ''later'']
                  = (ev, Resolved (s1, [''later'']))
          \<and> tempFilesWorkingDirectory s1 = JStr ''/home/u'' \<and> filesWorkingDirectory s1 = JNull
          \<and> configToSave s1 = [(''apiKey'', JStr ''key'')])"
proof -
  have 1: "tempFilesWorkingDirectory temporary_state = JStr ''/home/u'' \<and> ''/home/u'' \<noteq> []"
    by (simp add: temporary_state_def)
  have 2: "\<not> isFilesModeEnabled (work_state\<lparr>isFilesModeEnabled := False\<rparr>)
      \<and> toLowerCase (trim '' This_Folder '') = ''this_folder'' \<and> cwd quiet_env \<noteq> []"
    by code_simp
  have k: "apiKey temporary_state = JStr ''key''" "apiKey (work_state\<lparr>isFilesModeEnabled := False\<rparr>) = JStr ''key''"
    "cwd quiet_env = ''/home/u''"
    by (simp_all add: temporary_state_def work_state_def quiet_env_def)
  have a: "configToSave temporary_state = [(''apiKey'', apiKey temporary_state)]
      \<and> (\<forall>c. WriteConfig c \<in> set (fst (saveConfig quiet_env temporary_state)) \<longrightarrow> c = [(''apiKey'', apiKey temporary_state)])"
    using temporary_directory_never_saved [of temporary_state "''/home/u''" quiet_env] 1 by blast
  have l: "list_all (\<lambda>ev. ev = MkdirConfigDir \<or> ev = WriteConfig [(''apiKey'', JStr ''key'')])
        (fst (saveConfig quiet_env temporary_state))"
    using a k by (auto simp: list_all_iff saveConfig_def quiet_env_def)
  have b: "\<exists>ev s1. toggleFilesMode quiet_env (work_state\<lparr>isFilesModeEnabled := False\<rparr>) ('' This_Folder '' # [''later''])
                  = (ev, Resolved (s1, [''later'']))
          \<and> isFilesModeEnabled s1
          \<and> tempFilesWorkingDirectory s1 = JStr (cwd quiet_env) \<and> filesWorkingDirectory s1 = JNull
          \<and> (\<forall>c. WriteConfig c \<notin> set ev)
          \<and> configToSave s1 = [(''apiKey'', apiKey (work_state\<lparr>isFilesModeEnabled := False\<rparr>))]"
    using temporary_directory_never_saved [where s = "work_state\<lparr>isFilesModeEnabled := False\<rparr>"
        and answer = "'' This_Folder ''" and e = quiet_env and rest = "[''later'']"] 2
    by blast
  show ?thesis using a l b unfolding k by blast
qed

section \<open>Startup\<close>

text \<open>
  Claim C10.  \<^verbatim>\<open>loadConfig\<close> runs first in \<^verbatim>\<open>main\<close>, on the module's initial
  variables.  Whatever the configuration file holds, if the working directory that has been
  loaded is not \<^verbatim>\<open>null\<close>, file mode is enabled.  When the configuration holds a working
  directory that is truthy (a path, being a non-empty string, is; any other entry is loaded as
  \<^verbatim>\<open>null\<close>) and the configuration directory can be made, loading resolves with file
  mode enabled and with that directory as the working directory.  Loading asks the user
  nothing: its only events are making the configuration directory and reading the file.
\<close>

theorem loadConfig_enables_file_mode:
  "(snd (loadConfig e stored initial_state) = Resolved s' \<and> filesWorkingDirectory s' \<noteq> JNull \<longrightarrow>
      isFilesModeEnabled s')
   \<and> (get_prop config ''filesWorkingDirectory'' = Returned d \<and> truthy d \<and> mkdir_error e = None \<longrightarrow>
        (\<exists>k. loadConfig e (Parsed config) s =
               ([MkdirConfigDir, ReadConfig],
                Resolved (s\<lparr>apiKey := k, filesWorkingDirectory := d, isFilesModeEnabled := True\<rparr>))))
   \<and> (\<forall>ev\<in>set (fst (loadConfig e stored s)). ev = MkdirConfigDir \<or> ev = ReadConfig)"
proof (intro conjI impI)
  assume "snd (loadConfig e stored initial_state) = Resolved s' \<and> filesWorkingDirectory s' \<noteq> JNull"
  then show "isFilesModeEnabled s'"
    by (auto simp: loadConfig_def initial_state_def js_or_def Let_def
        split: option.splits config_file.splits result.splits if_splits)
next
  assume a: "get_prop config ''filesWorkingDirectory'' = Returned d \<and> truthy d \<and> mkdir_error e = None"
  then obtain kvs where "config = JObj kvs" by (cases config) auto
  then obtain k where "get_prop config ''apiKey'' = Returned k"
    by (cases "map_of kvs ''apiKey''") auto
  with a have "loadConfig e (Parsed config) s =
               ([MkdirConfigDir, ReadConfig],
                Resolved (s\<lparr>apiKey := k, filesWorkingDirectory := d, isFilesModeEnabled := True\<rparr>))"
    by (simp add: loadConfig_def Let_def js_or_def)
  then show "\<exists>k. loadConfig e (Parsed config) s =
               ([MkdirConfigDir, ReadConfig],
                Resolved (s\<lparr>apiKey := k, filesWorkingDirectory := d, isFilesModeEnabled := True\<rparr>))"
    by blast
next
  show "\<forall>ev\<in>set (fst (loadConfig e stored s)). ev = MkdirConfigDir \<or> ev = ReadConfig"
    by (auto simp: loadConfig_def split: option.splits)
qed

theorem loadConfig_enables_file_mode_witness:
  "loadConfig quiet_env (Parsed saved_directory_config) initial_state =
     ([MkdirConfigDir, ReadConfig],
      Resolved (initial_state\<lparr>apiKey := JStr ''key'', filesWorkingDirectory := JStr ''/work'',
                               isFilesModeEnabled := True\<rparr>))
   \<and> filesWorkingDirectory
        (initial_state\<lparr>apiKey := JStr ''key'', filesWorkingDirectory := JStr ''/work'',
                        isFilesModeEnabled := True\<rparr>) \<noteq> JNull
   \<and> isFilesModeEnabled
        (initial_state\<lparr>apiKey := JStr ''key'', filesWorkingDirectory := JStr ''/work'',
                        isFilesModeEnabled := True\<rparr>)
   \<and> (\<exists>k. loadConfig quiet_env (Parsed saved_directory_config) work_state =
          ([MkdirConfigDir, ReadConfig],
           Resolved (work_state\<lparr>apiKey := k, filesWorkingDirectory := JStr ''/work'',
                                 isFilesModeEnabled := True\<rparr>)))"
proof -
  let ?s = "initial_state\<lparr>apiKey := JStr ''key'', filesWorkingDirectory := JStr ''/work'',
                           isFilesModeEnabled := True\<rparr>"
  have 1: "loadConfig quiet_env (Parsed saved_directory_config) initial_state =
      ([MkdirConfigDir, ReadConfig], Resolved ?s)"
    by (simp add: loadConfig_def quiet_env_def saved_directory_config_def js_or_def Let_def)
  have 2: "filesWorkingDirectory ?s \<noteq> JNull" by simp
  have 3: "get_prop saved_directory_config ''filesWorkingDirectory'' = Returned (JStr ''/work'')
      \<and> truthy (JStr ''/work'') \<and> mkdir_error quiet_env = None"
    by (simp add: saved_directory_config_def quiet_env_def)
  have "snd (loadConfig quiet_env (Parsed saved_directory_config) initial_state) = Resolved ?s
      \<and> filesWorkingDirectory ?s \<noteq> JNull"
    using 1 2 by simp
  then have a: "isFilesModeEnabled ?s"
    using loadConfig_enables_file_mode [where e = quiet_env and stored = "Parsed saved_directory_config"
        and s' = ?s]
    by blast
  have b: "\<exists>k. loadConfig quiet_env (Parsed saved_directory_config) work_state =
          ([MkdirConfigDir, ReadConfig],
           Resolved (work_state\<lparr>apiKey := k, filesWorkingDirectory := JStr ''/work'',
                                 isFilesModeEnabled := True\<rparr>))"
    using loadConfig_enables_file_mode [where e = quiet_env and config = saved_directory_config
        and d = "JStr ''/work''" and s = work_state] 3
    by blast
  show ?thesis using 1 2 a b by blast
qed

end
